theory Spec2Isabelle
  imports Complex_Main
begin

section \<open>Python values and strings\<close>

text \<open>
  A Python \<^verbatim>\<open>str\<close> is modelled as a \<^typ>\<open>string\<close> whose characters are the code
  points below 256. A Python \<^verbatim>\<open>float\<close> is modelled by the rational number it stands
  for: arithmetic is exact and the rounding of IEEE doubles is not part of the model.
  Dictionaries are association lists in insertion order with unique keys.
\<close>

datatype pyval =
    PNone
  | PBool bool
  | PInt int
  | PFloat rat
  | PStr string
  | PList "pyval list"
  | PDict "(string \<times> pyval) list"

text \<open>An exception carries its class name and the text that \<^verbatim>\<open>str(e)\<close> yields.\<close>

datatype exn = Exn string string

fun str_exn :: "exn \<Rightarrow> string" where
  "str_exn (Exn cls msg) = msg"

text \<open>\<^verbatim>\<open>d.get(k)\<close> and \<^verbatim>\<open>d.get(k, default)\<close> on a dictionary.\<close>

definition dict_get :: "(string \<times> pyval) list \<Rightarrow> string \<Rightarrow> pyval \<Rightarrow> pyval" where
  "dict_get d k dflt = (case map_of d k of None \<Rightarrow> dflt | Some v \<Rightarrow> v)"

text \<open>\<^verbatim>\<open>d[k] = v\<close>: an existing key keeps its place, a new key goes to the end.\<close>

fun dict_set :: "(string \<times> 'a) list \<Rightarrow> string \<Rightarrow> 'a \<Rightarrow> (string \<times> 'a) list" where
  "dict_set [] k v = [(k, v)]"
| "dict_set ((k', v') # d) k v = (if k' = k then (k, v) # d else (k', v') # dict_set d k v)"

text \<open>Reading one entry of a result that is a dictionary.\<close>

fun field :: "pyval \<Rightarrow> string \<Rightarrow> pyval option" where
  "field (PDict d) k = map_of d k"
| "field v k = None"

text \<open>Truth value of an object, as \<^verbatim>\<open>if x\<close> and \<^verbatim>\<open>not x\<close> take it.\<close>

fun truthy :: "pyval \<Rightarrow> bool" where
  "truthy PNone = False"
| "truthy (PBool b) = b"
| "truthy (PInt i) = (i \<noteq> 0)"
| "truthy (PFloat q) = (q \<noteq> 0)"
| "truthy (PStr s) = (s \<noteq> [])"
| "truthy (PList xs) = (xs \<noteq> [])"
| "truthy (PDict d) = (d \<noteq> [])"

text \<open>Whitespace as \<^verbatim>\<open>str.split()\<close>, \<^verbatim>\<open>str.strip()\<close> and the regular expression
  class \<^verbatim>\<open>\s\<close> see it, for code points below 256.\<close>

definition is_space :: "char \<Rightarrow> bool" where
  "is_space c = (let n = (of_char c :: nat) in
     (9 \<le> n \<and> n \<le> 13) \<or> (28 \<le> n \<and> n \<le> 32) \<or> n = 133 \<or> n = 160)"

definition is_digit :: "char \<Rightarrow> bool" where
  "is_digit c = (let n = (of_char c :: nat) in 48 \<le> n \<and> n \<le> 57)"

definition lower_char :: "char \<Rightarrow> char" where
  "lower_char c = (let n = (of_char c :: nat) in
     if (65 \<le> n \<and> n \<le> 90) \<or> (192 \<le> n \<and> n \<le> 214) \<or> (216 \<le> n \<and> n \<le> 222)
     then char_of (n + 32) else c)"

definition py_lower :: "string \<Rightarrow> string" where
  "py_lower s = map lower_char s"

text \<open>\<^verbatim>\<open>s.split()\<close>: the maximal runs of non-whitespace characters. The first argument
  is the word being read.\<close>

fun split_ws :: "string \<Rightarrow> string \<Rightarrow> string list" where
  "split_ws w [] = (if w = [] then [] else [w])"
| "split_ws w (c # cs) =
     (if is_space c then (if w = [] then split_ws [] cs else w # split_ws [] cs)
      else split_ws (w @ [c]) cs)"

definition py_split :: "string \<Rightarrow> string list" where
  "py_split s = split_ws [] s"

definition py_strip :: "string \<Rightarrow> string" where
  "py_strip s = rev (dropWhile is_space (rev (dropWhile is_space s)))"

text \<open>\<^verbatim>\<open>sep.join(xs)\<close>.\<close>

fun py_join :: "string \<Rightarrow> string list \<Rightarrow> string" where
  "py_join sep [] = []"
| "py_join sep [x] = x"
| "py_join sep (x # y # xs) = x @ sep @ py_join sep (y # xs)"

fun starts_with :: "string \<Rightarrow> string \<Rightarrow> bool" where
  "starts_with s [] = True"
| "starts_with [] (p # ps) = False"
| "starts_with (c # cs) (p # ps) = (c = p \<and> starts_with cs ps)"

text \<open>\<^verbatim>\<open>sub in s\<close>.\<close>

fun contains :: "string \<Rightarrow> string \<Rightarrow> bool" where
  "contains [] sub = (sub = [])"
| "contains (c # cs) sub = (starts_with (c # cs) sub \<or> contains cs sub)"

text \<open>\<^verbatim>\<open>s.count(sub)\<close> for a non-empty \<^verbatim>\<open>sub\<close>: occurrences that do not overlap,
  from the left.\<close>

function py_count :: "string \<Rightarrow> string \<Rightarrow> nat" where
  "py_count s sub =
     (if sub = [] then Suc (length s)
      else if s = [] then 0
      else if starts_with s sub then Suc (py_count (drop (length sub) s) sub)
      else py_count (tl s) sub)"
  by pat_completeness auto
termination
  by (relation "measure (\<lambda>(s, sub). length s)") auto

text \<open>\<^verbatim>\<open>s.replace(old, "")\<close> for a non-empty \<^verbatim>\<open>old\<close>.\<close>

function py_remove :: "string \<Rightarrow> string \<Rightarrow> string" where
  "py_remove s old =
     (if old = [] \<or> s = [] then s
      else if starts_with s old then py_remove (drop (length old) s) old
      else hd s # py_remove (tl s) old)"
  by pat_completeness auto
termination
  by (relation "measure (\<lambda>(s, old). length s)") auto

text \<open>Decimal text of a natural number, as \<^verbatim>\<open>str(n)\<close> gives it.\<close>

definition digit_char :: "nat \<Rightarrow> char" where
  "digit_char n = ''0123456789'' ! n"

function show_nat :: "nat \<Rightarrow> string" where
  "show_nat n = (if n < 10 then [digit_char n] else show_nat (n div 10) @ [digit_char (n mod 10)])"
  by pat_completeness auto
termination
  by (relation "measure id") auto

text \<open>\<^verbatim>\<open>round(x, 1)\<close> on the exact value: to the nearest tenth, a tie to the even one.\<close>

definition round_half_even :: "rat \<Rightarrow> int" where
  "round_half_even x = (let f = \<lfloor>x\<rfloor>; r = x - of_int f in
     if r < 1/2 then f else if 1/2 < r then f + 1 else if even f then f else f + 1)"

definition round1 :: "rat \<Rightarrow> rat" where
  "round1 x = of_int (round_half_even (x * 10)) / 10"

section \<open>The remote agent runtime\<close>

text \<open>
  A run of the agent runner yields a list of events; an event is the list of the texts of
  its parts (a part without text is the empty string, an event without content has no
  parts). Creating the session or running the agent may raise instead. What the remote
  service does is a parameter of every operation that calls it.
\<close>

type_synonym event = "string list"
type_synonym bytes = "nat list"

record adk =
  create_session :: "exn option"
  run_async :: "string \<Rightarrow> bytes \<Rightarrow> exn + event list"

text \<open>\<^verbatim>\<open>_extract_final_response\<close>: the first non-empty text of the last event that has
  one. The transcription agent, the speech coach and the workflow agent strip it.\<close>

definition first_text :: "event \<Rightarrow> string" where
  "first_text parts = (case filter (\<lambda>t. t \<noteq> []) parts of [] \<Rightarrow> [] | t # _ \<Rightarrow> t)"

fun last_response :: "event list \<Rightarrow> string" where
  "last_response [] = []"
| "last_response (e # es) = (if first_text e \<noteq> [] then first_text e else last_response es)"

definition extract_final_response :: "event list \<Rightarrow> string" where
  "extract_final_response events = py_strip (last_response (rev events))"

section \<open>Transcription agent\<close>

definition generate_error_response :: "bytes \<Rightarrow> string \<Rightarrow> pyval" where
  "generate_error_response audio_data error_msg =
     (let audio_size_kb = (if audio_data \<noteq> [] then rat_of_nat (length audio_data) / 1024 else 0);
          fallback_text =
            (if audio_size_kb < 1 then
               ''Audio recording was too short. Please record for at least 3-5 seconds.''
             else if contains (py_lower error_msg) ''multimodal'' \<or> contains (py_lower error_msg) ''audio'' then
               ''Unable to process audio. Please ensure good audio quality and try again.''
             else
               ''Transcription service temporarily unavailable. Please try again or use text input.'')
      in PDict [
        (''transcribed_text'', PStr []),
        (''word_count'', PInt 0),
        (''status'', PStr ''failed''),
        (''error'', PStr error_msg),
        (''fallback_message'', PStr fallback_text),
        (''method'', PStr ''error_fallback'')])"

definition analyze_audio_data :: "bytes \<Rightarrow> string \<Rightarrow> (string \<times> pyval) list" where
  "analyze_audio_data audio_data mime_type =
     (let size_bytes = length audio_data;
          size_kb = round1 (rat_of_nat size_bytes / 1024);
          estimated_duration =
            (if mime_type = ''audio/wav'' then rat_of_nat size_bytes / 16000
             else if mime_type = ''audio/mp3'' then rat_of_nat size_bytes / 2000
             else if mime_type = ''audio/webm'' then rat_of_nat size_bytes / 4000
             else rat_of_nat size_bytes / 8000)
      in [
        (''size_bytes'', PInt (int size_bytes)),
        (''size_kb'', PFloat size_kb),
        (''estimated_duration'', PFloat (round1 estimated_duration)),
        (''mime_type'', PStr mime_type),
        (''quality_estimate'', PStr (if size_bytes > 5000 then ''good'' else ''poor''))])"

text \<open>The five checks of \<^verbatim>\<open>_validate_transcription\<close>, in the order of the source. The
  estimated duration is read from the audio metadata; the comparison with \<^verbatim>\<open>1.0\<close>
  raises a \<^verbatim>\<open>TypeError\<close> when the entry is not a number.\<close>

fun num_of :: "pyval \<Rightarrow> rat option" where
  "num_of (PInt i) = Some (of_int i)"
| "num_of (PFloat q) = Some q"
| "num_of (PBool b) = Some (if b then 1 else 0)"
| "num_of _ = None"

definition has_punctuation :: "string \<Rightarrow> bool" where
  "has_punctuation text = (\<exists>c \<in> set ''.!?''. c \<in> set text)"

definition validations :: "string \<Rightarrow> rat \<Rightarrow> bool list" where
  "validations text estimated_duration =
     (let word_count = length (py_split text) in
      [ word_count \<ge> 3,
        10 \<le> length text \<and> length text \<le> 2000,
        has_punctuation text,
        length (remdups (py_split (py_lower text))) > max 1 (word_count div 3),
        estimated_duration > 1 ])"

definition check_names :: "string list" where
  "check_names = [''min_words'', ''reasonable_length'', ''has_punctuation'', ''not_repetitive'', ''duration_match'']"

definition validate_transcription :: "string \<Rightarrow> (string \<times> pyval) list \<Rightarrow> exn + pyval" where
  "validate_transcription text audio_info =
     (if text = [] \<or> py_strip text = [] then
        Inr (PDict [(''valid'', PBool False), (''reason'', PStr ''Empty transcription''), (''confidence'', PFloat 0)])
      else
        let word_count = length (py_split text);
            estimated_duration = dict_get audio_info ''estimated_duration'' (PInt 0)
        in case num_of estimated_duration of
             None \<Rightarrow> Inl (Exn ''TypeError'' ''> not supported between these operands'')
           | Some dur \<Rightarrow>
               let checks = validations text dur;
                   valid_checks = length (filter id checks);
                   confidence = rat_of_nat valid_checks / rat_of_nat (length checks)
               in Inr (PDict [
                    (''valid'', PBool (confidence \<ge> 6/10)),
                    (''confidence'', PFloat confidence),
                    (''word_count'', PInt (int word_count)),
                    (''estimated_duration'', estimated_duration),
                    (''checks'', PDict (zip check_names (map PBool checks)))]))"

definition artifacts_to_remove :: "string list" where
  "artifacts_to_remove = [
     ''[TRANSCRIPTION]'', ''[END TRANSCRIPTION]'',
     ''**Transcribed text:**'', ''**Clean transcription:**'',
     ''Here is the transcription:'', ''The transcription is:'',
     ''Transcribed content:'', ''Audio transcription:'',
     ''The audio says:'', ''I hear:'', ''The speaker says:'']"

definition ends_with_any :: "string \<Rightarrow> string \<Rightarrow> bool" where
  "ends_with_any text cs = (text \<noteq> [] \<and> last text \<in> set cs)"

definition basic_text_cleanup :: "string \<Rightarrow> string" where
  "basic_text_cleanup text0 =
     (if text0 = [] \<or> py_strip text0 = [] then []
      else
        let text1 = py_strip text0;
            text2 = foldl py_remove text1 artifacts_to_remove;
            text3 = py_join '' '' (py_split text2)
        in if text3 \<noteq> [] \<and> \<not> ends_with_any text3 ''.!?'' \<and> length (py_split text3) > 2
           then text3 @ ''.'' else text3)"

text \<open>\<^verbatim>\<open>transcribe_audio_bytes\<close>. The second component is the list of requests
  (MIME type and audio) that were sent to the runner.\<close>

definition transcribe_audio_bytes :: "adk \<Rightarrow> bytes \<Rightarrow> string \<Rightarrow> pyval \<times> (string \<times> bytes) list" where
  "transcribe_audio_bytes env audio_data mime_type =
     (if audio_data = [] \<or> length audio_data < 1000 then
        (generate_error_response audio_data
           (''Audio data too small: '' @ show_nat (length audio_data) @ '' bytes. Need at least 1KB.''), [])
      else case create_session env of
        Some e \<Rightarrow> (generate_error_response audio_data (str_exn e), [])
      | None \<Rightarrow>
         (case run_async env mime_type audio_data of
            Inl e \<Rightarrow> (generate_error_response audio_data (str_exn e), [(mime_type, audio_data)])
          | Inr events \<Rightarrow>
              let transcribed_text = extract_final_response events in
              if transcribed_text = [] then
                (generate_error_response audio_data ''No transcription generated from audio'',
                 [(mime_type, audio_data)])
              else
                let clean_text = basic_text_cleanup transcribed_text;
                    audio_info = analyze_audio_data audio_data mime_type
                in case validate_transcription clean_text audio_info of
                     Inl e \<Rightarrow> (generate_error_response audio_data (str_exn e), [(mime_type, audio_data)])
                   | Inr validation \<Rightarrow>
                       (PDict [
                          (''transcribed_text'', PStr clean_text),
                          (''word_count'', PInt (if clean_text \<noteq> [] then int (length (py_split clean_text)) else 0)),
                          (''status'', PStr ''success''),
                          (''audio_info'', PDict audio_info),
                          (''method'', PStr ''adk_multimodal''),
                          (''validation'', validation)],
                        [(mime_type, audio_data)])))"

section \<open>Interview manager: progress summary\<close>






text \<open>The five checks as the specification words them: the fourth asks for more distinct
  words than a third of the word count.\<close>

definition claimed_validations :: "string \<Rightarrow> rat \<Rightarrow> bool list" where
  "claimed_validations text estimated_duration =
     (let word_count = length (py_split text) in
      [ word_count \<ge> 3,
        10 \<le> length text \<and> length text \<le> 2000,
        has_punctuation text,
        rat_of_nat (length (remdups (py_split (py_lower text)))) > rat_of_nat word_count / 3,
        estimated_duration > 1 ])"


section \<open>Regular expression searches\<close>

text \<open>
  The parsers cut the model's answer with \<^verbatim>\<open>re.search\<close> and \<^verbatim>\<open>re.findall\<close>. Each
  pattern is a label followed by greedy runs of one character class and by one lazy
  capture that ends at a lookahead, so the first match in backtracking order is: the
  leftmost position where the label matches, every greedy run at its longest, the lazy
  capture at its shortest.
\<close>

definition nl :: char where
  "nl = CHR 0x0A"

text \<open>\<^verbatim>\<open>re.search\<close>: the matcher is tried at every position from the left.\<close>

fun re_search :: "(string \<Rightarrow> 'a option) \<Rightarrow> string \<Rightarrow> 'a option" where
  "re_search m [] = m []"
| "re_search m (c # cs) = (case m (c # cs) of Some r \<Rightarrow> Some r | None \<Rightarrow> re_search m cs)"

text \<open>\<^verbatim>\<open>(.*?)(?=stop)\<close>: the shortest run of characters of the class \<open>ok\<close> after which
  the lookahead \<open>stop\<close> holds, with the text that follows it.\<close>

fun lazy_until :: "(string \<Rightarrow> bool) \<Rightarrow> (char \<Rightarrow> bool) \<Rightarrow> string \<Rightarrow> (string \<times> string) option" where
  "lazy_until stop ok [] = (if stop [] then Some ([], []) else None)"
| "lazy_until stop ok (c # cs) =
     (if stop (c # cs) then Some ([], c # cs)
      else if ok c then
        (case lazy_until stop ok cs of None \<Rightarrow> None | Some (cap, rest) \<Rightarrow> Some (c # cap, rest))
      else None)"

text \<open>The lookaheads of the patterns: \<^verbatim>\<open>\Z\<close>, a literal, \<^verbatim>\<open>\n.*?:\<close> (with DOTALL),
  \<^verbatim>\<open>\n\s*-\<close>, \<^verbatim>\<open>\n[A-Z]\<close> (any letter under IGNORECASE), \<^verbatim>\<open>\n\<close> and \<^verbatim>\<open>$\<close>.\<close>

definition at_end :: "string \<Rightarrow> bool" where
  "at_end s = (s = [])"

definition nl_then_colon :: "string \<Rightarrow> bool" where
  "nl_then_colon s = (case s of [] \<Rightarrow> False | c # cs \<Rightarrow> c = nl \<and> CHR '':'' \<in> set cs)"

definition nl_bullet :: "string \<Rightarrow> bool" where
  "nl_bullet s = (case s of [] \<Rightarrow> False
     | c # cs \<Rightarrow> c = nl \<and> (case dropWhile is_space cs of [] \<Rightarrow> False | d # ds \<Rightarrow> d = CHR ''-''))"

definition is_upper :: "char \<Rightarrow> bool" where
  "is_upper c = (let n = (of_char c :: nat) in 65 \<le> n \<and> n \<le> 90)"

definition is_letter :: "char \<Rightarrow> bool" where
  "is_letter c = (let n = (of_char c :: nat) in (65 \<le> n \<and> n \<le> 90) \<or> (97 \<le> n \<and> n \<le> 122))"

definition nl_upper :: "string \<Rightarrow> bool" where
  "nl_upper s = (case s of c # d # ds \<Rightarrow> c = nl \<and> is_upper d | _ \<Rightarrow> False)"

definition nl_letter :: "string \<Rightarrow> bool" where
  "nl_letter s = (case s of c # d # ds \<Rightarrow> c = nl \<and> is_letter d | _ \<Rightarrow> False)"

definition at_nl :: "string \<Rightarrow> bool" where
  "at_nl s = (case s of [] \<Rightarrow> False | c # cs \<Rightarrow> c = nl)"

definition at_dollar :: "string \<Rightarrow> bool" where
  "at_dollar s = (s = [] \<or> s = [nl])"

text \<open>A label under IGNORECASE.\<close>

definition starts_with_ci :: "string \<Rightarrow> string \<Rightarrow> bool" where
  "starts_with_ci s l = starts_with (py_lower s) (py_lower l)"

text \<open>\<^verbatim>\<open>label\s*(\d+)\<close> at one position: the digits of group 1. What may follow
  (\<^verbatim>\<open>(?:/10)?\<close>) does not change the group.\<close>

definition match_int :: "string \<Rightarrow> string \<Rightarrow> string option" where
  "match_int label s =
     (if starts_with s label then
        let ds = takeWhile is_digit (dropWhile is_space (drop (length label) s))
        in if ds = [] then None else Some ds
      else None)"

text \<open>\<^verbatim>\<open>label\s*(\d+(?:\.\d+)?)\<close> at one position.\<close>

definition match_decimal :: "string \<Rightarrow> string \<Rightarrow> (string \<times> string) option" where
  "match_decimal label s =
     (if starts_with s label then
        let r = dropWhile is_space (drop (length label) s);
            ds = takeWhile is_digit r;
            r' = dropWhile is_digit r
        in if ds = [] then None
           else (case r' of
                   c # cs \<Rightarrow> if c = CHR ''.'' \<and> takeWhile is_digit cs \<noteq> []
                             then Some (ds, takeWhile is_digit cs) else Some (ds, [])
                 | [] \<Rightarrow> Some (ds, []))
      else None)"

text \<open>\<^verbatim>\<open>label\s*(.*?)(?=stop)\<close> with DOTALL at one position (\<open>skip\<close> tells whether the
  pattern has the \<^verbatim>\<open>\s*\<close>), and the same under IGNORECASE.\<close>

definition match_section :: "string \<Rightarrow> bool \<Rightarrow> (string \<Rightarrow> bool) \<Rightarrow> string \<Rightarrow> string option" where
  "match_section label skip stop s =
     (if starts_with s label then
        let r = drop (length label) s;
            r' = (if skip then dropWhile is_space r else r)
        in map_option fst (lazy_until stop (\<lambda>c. True) r')
      else None)"

definition match_section_ci :: "string \<Rightarrow> (string \<Rightarrow> bool) \<Rightarrow> string \<Rightarrow> string option" where
  "match_section_ci label stop s =
     (if starts_with_ci s label then
        map_option fst (lazy_until stop (\<lambda>c. True) (dropWhile is_space (drop (length label) s)))
      else None)"

text \<open>\<^verbatim>\<open>re.findall(r'-\s*(.*?)(?=\n\s*-|\n[A-Z]|\Z)', s, re.DOTALL)\<close>: the captures of
  the matches from the left, each search starting where the last match ended. The first
  argument counts the characters of the last match still to be passed over.\<close>

fun find_items :: "nat \<Rightarrow> string \<Rightarrow> string list" where
  "find_items k [] = []"
| "find_items (Suc k) (c # cs) = find_items k cs"
| "find_items 0 (c # cs) =
     (if c = CHR ''-'' then
        (case lazy_until (\<lambda>t. nl_bullet t \<or> nl_upper t \<or> at_end t) (\<lambda>c. True) (dropWhile is_space cs) of
           None \<Rightarrow> find_items 0 cs
         | Some (cap, rest) \<Rightarrow> cap # find_items (length cs - length rest) cs)
      else find_items 0 cs)"

text \<open>A list section: \<^verbatim>\<open>name:(.*?)(?=\n[A-Z]|\Z)\<close>, then the items, stripped, the
  empty ones dropped. \<open>None\<close> when the section is absent.\<close>

definition parse_list_section :: "string \<Rightarrow> string \<Rightarrow> string list option" where
  "parse_list_section name text =
     map_option (\<lambda>body. filter (\<lambda>i. i \<noteq> []) (map py_strip (find_items 0 body)))
       (re_search (match_section (name @ '':'') False (\<lambda>t. nl_upper t \<or> at_end t)) text)"

text \<open>\<^verbatim>\<open>int(digits)\<close> and \<^verbatim>\<open>float(digits.digits)\<close> of matched groups.\<close>

definition digit_val :: "char \<Rightarrow> nat" where
  "digit_val c = of_char c - 48"

definition int_of_digits :: "string \<Rightarrow> nat" where
  "int_of_digits ds = foldl (\<lambda>a c. 10 * a + digit_val c) 0 ds"

definition float_of_digits :: "string \<times> string \<Rightarrow> rat" where
  "float_of_digits p = (case p of (ds, fs) \<Rightarrow>
     rat_of_nat (int_of_digits ds) + rat_of_nat (int_of_digits fs) / 10 ^ length fs)"

section \<open>Speech coach agent\<close>

text \<open>The fields an agent keeps of the job: \<^verbatim>\<open>self.industry\<close> and \<^verbatim>\<open>self.job_title\<close>.\<close>

record job =
  industry :: string
  job_title :: string

text \<open>The format \<^verbatim>\<open>:.1f\<close> of a number that is not negative.\<close>

definition fmt_1f :: "rat \<Rightarrow> string" where
  "fmt_1f x = (let t = nat (round_half_even (x * 10)) in show_nat (t div 10) @ ''.'' @ show_nat (t mod 10))"

definition axis_entry :: "int \<Rightarrow> string \<Rightarrow> pyval" where
  "axis_entry sc feedback = PDict [(''score'', PInt sc), (''feedback'', PStr feedback)]"

text \<open>\<^verbatim>\<open>context or {}\<close>.\<close>

definition or_empty_dict :: "pyval \<Rightarrow> pyval" where
  "or_empty_dict v = (if truthy v then v else PDict [])"

definition generate_fallback_analysis :: "job \<Rightarrow> bytes \<Rightarrow> string \<Rightarrow> pyval \<Rightarrow> pyval" where
  "generate_fallback_analysis j audio_data error_msg context =
     (let audio_size_kb = (if audio_data \<noteq> [] then rat_of_nat (length audio_data) / 1024 else 0) in
      PDict [
        (''overall_score'', PInt 5),
        (''delivery_assessment'', PStr (''Speech analysis temporarily unavailable. Audio received (''
            @ fmt_1f audio_size_kb @ '' KB) but processing failed.'')),
        (''detailed_scores'', PDict [
           (''pace_rhythm'', axis_entry 5 ''Unable to analyze pace due to processing error''),
           (''clarity_articulation'', axis_entry 5 ''Unable to analyze clarity due to processing error''),
           (''confidence_authority'', axis_entry 5 ''Unable to analyze confidence due to processing error''),
           (''professional_tone'', axis_entry 5 ''Unable to analyze tone due to processing error''),
           (''energy_engagement'', axis_entry 5 ''Unable to analyze energy due to processing error''),
           (''speech_patterns'', axis_entry 5 ''Unable to analyze patterns due to processing error'')]),
        (''strengths'', PList [
           PStr ''Audio was successfully recorded'',
           PStr (''Appropriate recording length for '' @ industry j @ '' interview''),
           PStr ''Attempted to provide comprehensive response'']),
        (''improvements'', PList [
           PStr ''Ensure clear audio quality for optimal analysis'',
           PStr ''Check microphone settings and environment'',
           PStr ''Try again with stable internet connection'']),
        (''coaching_tips'', PList [
           PStr (''Practice speaking clearly for '' @ industry j @ '' interviews''),
           PStr ''Record in a quiet environment for best results'',
           PStr ''Speak at a moderate pace for technical discussions'']),
        (''industry_advice'', PStr (''For '' @ industry j @
           '' interviews, focus on clear, confident communication that demonstrates technical expertise and professional demeanor.'')),
        (''practice_recommendations'', PStr
           ''Practice speaking aloud, record yourself regularly, and focus on clear articulation and confident delivery.''),
        (''audio_metadata'', PDict [
           (''size_bytes'', PInt (int (length audio_data))),
           (''analysis_type'', PStr ''speech_delivery_fallback''),
           (''industry'', PStr (industry j)),
           (''job_title'', PStr (job_title j)),
           (''error'', PStr error_msg)]),
        (''context'', or_empty_dict context)])"

text \<open>\<^verbatim>\<open>label\s*(\d+).*?-\s*(.*?)(?=\n|$)\<close> under IGNORECASE at one position: the score
  digits and the feedback. Here \<^verbatim>\<open>.\<close> does not match a line break.\<close>

definition match_axis :: "string \<Rightarrow> string \<Rightarrow> (string \<times> string) option" where
  "match_axis label s =
     (if starts_with_ci s label then
        let r = dropWhile is_space (drop (length label) s);
            ds = takeWhile is_digit r
        in if ds = [] then None
           else (case lazy_until (\<lambda>t. starts_with t ''-'') (\<lambda>c. c \<noteq> nl) (dropWhile is_digit r) of
                   None \<Rightarrow> None
                 | Some (skipped, rest) \<Rightarrow>
                     (case lazy_until (\<lambda>t. at_nl t \<or> at_dollar t) (\<lambda>c. c \<noteq> nl)
                             (dropWhile is_space (tl rest)) of
                        None \<Rightarrow> None
                      | Some (feedback, rest') \<Rightarrow> Some (ds, feedback)))
      else None)"

definition score_patterns :: "(string \<times> string) list" where
  "score_patterns = [
     (''pace_rhythm'', ''Pace & Rhythm:''),
     (''clarity_articulation'', ''Clarity & Articulation:''),
     (''confidence_authority'', ''Confidence & Authority:''),
     (''professional_tone'', ''Professional Tone:''),
     (''energy_engagement'', ''Energy & Engagement:''),
     (''speech_patterns'', ''Speech Patterns:'')]"

definition detailed_scores_of :: "string \<Rightarrow> (string \<times> pyval) list" where
  "detailed_scores_of analysis_text =
     foldl (\<lambda>d (key, label).
              case re_search (match_axis label) analysis_text of
                None \<Rightarrow> d
              | Some (ds, feedback) \<Rightarrow> dict_set d key (axis_entry (int (int_of_digits ds)) (py_strip feedback)))
       [] score_patterns"

text \<open>A field that keeps its default when its pattern does not match.\<close>

definition str_or :: "string \<Rightarrow> string option \<Rightarrow> pyval" where
  "str_or dflt m = (case m of None \<Rightarrow> PStr dflt | Some t \<Rightarrow> PStr (py_strip t))"

definition list_or_empty :: "string list option \<Rightarrow> pyval" where
  "list_or_empty m = (case m of None \<Rightarrow> PList [] | Some xs \<Rightarrow> PList (map PStr xs))"

definition parse_speech_analysis :: "job \<Rightarrow> string \<Rightarrow> bytes \<Rightarrow> pyval \<Rightarrow> pyval" where
  "parse_speech_analysis j analysis_text audio_data context =
     PDict [
       (''overall_score'',
          (case re_search (match_int ''Overall Delivery Score:'') analysis_text of
             None \<Rightarrow> PInt 5 | Some ds \<Rightarrow> PInt (int (int_of_digits ds)))),
       (''delivery_assessment'',
          str_or [] (re_search (match_section ''Delivery Assessment:'' True
                       (\<lambda>t. nl_then_colon t \<or> at_end t)) analysis_text)),
       (''detailed_scores'', PDict (detailed_scores_of analysis_text)),
       (''strengths'', list_or_empty (parse_list_section ''STRENGTHS'' analysis_text)),
       (''improvements'', list_or_empty (parse_list_section ''AREAS FOR IMPROVEMENT'' analysis_text)),
       (''coaching_tips'', list_or_empty (parse_list_section ''SPECIFIC COACHING TIPS'' analysis_text)),
       (''industry_advice'',
          str_or [] (re_search (match_section ''INDUSTRY-SPECIFIC ADVICE:'' True
                       (\<lambda>t. starts_with t (nl # ''PRACTICE RECOMMENDATIONS:'') \<or> at_end t)) analysis_text)),
       (''practice_recommendations'',
          str_or [] (re_search (match_section ''PRACTICE RECOMMENDATIONS:'' True at_end) analysis_text)),
       (''audio_metadata'', PDict [
          (''size_bytes'', PInt (int (length audio_data))),
          (''analysis_type'', PStr ''speech_delivery''),
          (''industry'', PStr (industry j)),
          (''job_title'', PStr (job_title j))]),
       (''context'', or_empty_dict context)]"

text \<open>The body of the \<^verbatim>\<open>try\<close> block of \<^verbatim>\<open>analyze_speech_delivery\<close>: it raises for audio
  under 1000 bytes, when the session or the run fails and when no text comes back.\<close>

definition speech_analysis_attempt :: "job \<Rightarrow> adk \<Rightarrow> bytes \<Rightarrow> string \<Rightarrow> pyval \<Rightarrow> exn + pyval" where
  "speech_analysis_attempt j env audio_data mime_type context =
     (if audio_data = [] \<or> length audio_data < 1000 then
        Inl (Exn ''ValueError'' (''Audio data too small: '' @ show_nat (length audio_data) @ '' bytes''))
      else case create_session env of
        Some e \<Rightarrow> Inl e
      | None \<Rightarrow>
         (case run_async env mime_type audio_data of
            Inl e \<Rightarrow> Inl e
          | Inr events \<Rightarrow>
              let analysis_text = extract_final_response events in
              if analysis_text = [] then Inl (Exn ''Exception'' ''No speech analysis generated'')
              else Inr (parse_speech_analysis j analysis_text audio_data context)))"

text \<open>\<^verbatim>\<open>analyze_speech_delivery\<close>: whatever the \<^verbatim>\<open>try\<close> block raises is caught and
  answered with the fallback analysis.\<close>

definition analyze_speech_delivery :: "job \<Rightarrow> adk \<Rightarrow> bytes \<Rightarrow> string \<Rightarrow> pyval \<Rightarrow> exn + pyval" where
  "analyze_speech_delivery j env audio_data mime_type context =
     (case speech_analysis_attempt j env audio_data mime_type context of
        Inl e \<Rightarrow> Inr (generate_fallback_analysis j audio_data (str_exn e) context)
      | Inr analysis \<Rightarrow> Inr analysis)"

section \<open>Competency agent: evaluating an answer\<close>

text \<open>The competency agent's \<^verbatim>\<open>_extract_final_response\<close> does not strip and has a
  default text.\<close>

definition extract_final_response_or_default :: "event list \<Rightarrow> string" where
  "extract_final_response_or_default events =
     (if last_response (rev events) \<noteq> [] then last_response (rev events) else ''No response generated'')"

text \<open>\<^verbatim>\<open>str.title()\<close> of one lower-case word.\<close>

definition title_word :: "string \<Rightarrow> string" where
  "title_word w = (case w of [] \<Rightarrow> [] | c # cs \<Rightarrow> char_of (of_char c - (32::nat)) # cs)"

definition star_components :: "string list" where
  "star_components = [''situation'', ''task'', ''action'', ''result'']"

definition star_analysis_of :: "string \<Rightarrow> (string \<times> pyval) list" where
  "star_analysis_of response =
     (let default = map (\<lambda>c. (c, PStr [])) star_components in
      case re_search (match_section ''STAR Method Analysis:'' False
                        (\<lambda>t. starts_with t (nl # ''Strengths:'') \<or> at_end t)) response of
        None \<Rightarrow> default
      | Some star_text \<Rightarrow>
          foldl (\<lambda>d component.
                   case re_search (match_section_ci (title_word component @ '':'')
                                     (\<lambda>t. nl_bullet t \<or> nl_letter t \<or> at_end t)) star_text of
                     None \<Rightarrow> d
                   | Some m \<Rightarrow> dict_set d component (PStr (py_strip m)))
            default star_components)"

definition parse_evaluation_response :: "string \<Rightarrow> string \<Rightarrow> string \<Rightarrow> pyval" where
  "parse_evaluation_response competency response original_answer =
     PDict [
       (''score'',
          (case re_search (match_int ''Score:'') response of
             None \<Rightarrow> PInt 5 | Some ds \<Rightarrow> PInt (int (int_of_digits ds)))),
       (''overall_assessment'',
          str_or [] (re_search (match_section ''Overall Assessment:'' True
                       (\<lambda>t. nl_then_colon t \<or> at_end t)) response)),
       (''star_analysis'', PDict (star_analysis_of response)),
       (''strengths'', list_or_empty (parse_list_section ''Strengths'' response)),
       (''improvements'', list_or_empty (parse_list_section ''Areas for Improvement'' response)),
       (''missing_elements'', list_or_empty (parse_list_section ''Missing Elements'' response)),
       (''advice'',
          str_or [] (re_search (match_section ''Advice for Improvement:'' True
                       (\<lambda>t. starts_with t (nl # ''Sample Strong Answer:'') \<or> at_end t)) response)),
       (''sample_answer'',
          str_or [] (re_search (match_section ''Sample Strong Answer:'' True at_end) response)),
       (''competency'', PStr competency),
       (''original_answer'', PStr original_answer)]"

definition star_keywords :: "string list" where
  "star_keywords = [''situation'', ''task'', ''action'', ''result'', ''when'', ''what'', ''how'', ''outcome'']"

text \<open>The score of the fallback evaluation: base 5, one more for over 100 words, two more
  for at least 4 of the keywords or one more for at least 2, capped at 8.\<close>

definition fallback_score :: "string \<Rightarrow> int" where
  "fallback_score answer =
     (let score0 = 5;
          score1 = (if length (py_split answer) > 100 then score0 + 1 else score0);
          star_count = length (filter (\<lambda>keyword. contains (py_lower answer) (py_lower keyword)) star_keywords);
          score2 = (if star_count \<ge> 4 then score1 + 2 else if star_count \<ge> 2 then score1 + 1 else score1)
      in min score2 8)"

definition any_in :: "string list \<Rightarrow> string \<Rightarrow> bool" where
  "any_in words text = list_ex (\<lambda>word. contains text word) words"

definition generate_fallback_evaluation :: "string \<Rightarrow> job \<Rightarrow> string \<Rightarrow> pyval" where
  "generate_fallback_evaluation competency j answer =
     PDict [
       (''score'', PInt (fallback_score answer)),
       (''overall_assessment'', PStr (''Your answer demonstrates some understanding of '' @ competency @
          ''. Consider providing more specific details and following the STAR method structure.'')),
       (''star_analysis'', PDict [
          (''situation'', PStr (if contains (py_lower answer) ''situation''
                                then ''Partially described'' else ''Could be clearer'')),
          (''task'', PStr (if any_in [''task'', ''responsible'', ''role''] (py_lower answer)
                           then ''Some task description'' else ''Needs more detail'')),
          (''action'', PStr (if any_in [''did'', ''action'', ''approach''] (py_lower answer)
                             then ''Actions mentioned'' else ''Could be more specific'')),
          (''result'', PStr (if any_in [''result'', ''outcome'', ''achieved''] (py_lower answer)
                             then ''Results discussed'' else ''Needs measurable outcomes''))]),
       (''strengths'', PList [
          PStr (''Shows understanding of '' @ competency),
          PStr ''Provided a relevant example'',
          PStr ''Demonstrates practical experience'']),
       (''improvements'', PList [
          PStr ''Use more specific details and examples'',
          PStr ''Follow STAR method structure more clearly'',
          PStr ''Include quantifiable results and outcomes'']),
       (''missing_elements'', PList [
          PStr ''More detailed situation context'',
          PStr ''Clearer explanation of specific actions taken'',
          PStr ''Measurable results and impact'']),
       (''advice'', PStr (''To improve your '' @ competency @
          '' answers, focus on providing a clear STAR structure with specific details about the situation, your role, the actions you took, and the measurable results achieved.'')),
       (''sample_answer'', PStr (''A strong '' @ competency @
          '' answer would include: a specific situation from your '' @ industry j @
          '' experience, your clear role and responsibilities, detailed actions you took that demonstrate ''
          @ competency @ '', and measurable outcomes that show the impact of your work.'')),
       (''competency'', PStr competency),
       (''original_answer'', PStr answer)]"

text \<open>\<^verbatim>\<open>CompetencyAgent.evaluate_answer\<close>. The outcome of creating the session and running
  the agent on the prompt is a parameter: an exception, or the events of the run.\<close>

definition evaluate_answer :: "string \<Rightarrow> job \<Rightarrow> exn + event list \<Rightarrow> string \<Rightarrow> pyval" where
  "evaluate_answer competency j outcome answer =
     (case outcome of
        Inl e \<Rightarrow> generate_fallback_evaluation competency j answer
      | Inr events \<Rightarrow>
          parse_evaluation_response competency (extract_final_response_or_default events) answer)"

section \<open>Enhanced voice workflow agent\<close>

text \<open>
  The operations of Python that the workflow applies to values it has not built itself,
  with the \<^verbatim>\<open>TypeError\<close>, \<^verbatim>\<open>KeyError\<close> or \<^verbatim>\<open>AttributeError\<close> they raise on a value
  of the wrong kind.
\<close>

type_synonym pydict = "(string \<times> pyval) list"

definition try_bind :: "exn + 'a \<Rightarrow> ('a \<Rightarrow> exn + 'b) \<Rightarrow> exn + 'b" where
  "try_bind m f = (case m of Inl e \<Rightarrow> Inl e | Inr x \<Rightarrow> f x)"

text \<open>\<^verbatim>\<open>v[k]\<close> for a string key.\<close>

fun subscript :: "pyval \<Rightarrow> string \<Rightarrow> exn + pyval" where
  "subscript (PDict d) k = (case map_of d k of None \<Rightarrow> Inl (Exn ''KeyError'' k) | Some v \<Rightarrow> Inr v)"
| "subscript v k = Inl (Exn ''TypeError'' ''indices must be integers or the object is not subscriptable'')"

text \<open>\<^verbatim>\<open>v[:n]\<close>.\<close>

fun py_slice :: "nat \<Rightarrow> pyval \<Rightarrow> exn + pyval" where
  "py_slice n (PList xs) = Inr (PList (take n xs))"
| "py_slice n (PStr t) = Inr (PStr (take n t))"
| "py_slice n v = Inl (Exn ''TypeError'' ''object is not subscriptable'')"

text \<open>\<^verbatim>\<open>a + b\<close> of two slices.\<close>

fun py_concat :: "pyval \<Rightarrow> pyval \<Rightarrow> exn + pyval" where
  "py_concat (PList xs) (PList ys) = Inr (PList (xs @ ys))"
| "py_concat (PStr a) (PStr b) = Inr (PStr (a @ b))"
| "py_concat a b = Inl (Exn ''TypeError'' ''can only concatenate objects of the same kind'')"

text \<open>\<^verbatim>\<open>', '.join(v)\<close> raises unless \<^verbatim>\<open>v\<close> yields strings.\<close>

fun is_str :: "pyval \<Rightarrow> bool" where
  "is_str (PStr t) = True"
| "is_str v = False"

fun joinable :: "pyval \<Rightarrow> bool" where
  "joinable (PList xs) = list_all is_str xs"
| "joinable (PStr t) = True"
| "joinable v = False"

text \<open>\<^verbatim>\<open>a < 0\<close>.\<close>

definition py_negative :: "pyval \<Rightarrow> exn + bool" where
  "py_negative v = (case num_of v of
     None \<Rightarrow> Inl (Exn ''TypeError'' ''< not supported between these operands'')
   | Some q \<Rightarrow> Inr (q < 0))"

text \<open>What the workflow gets from outside: the three agents it calls, the outcome of the
  synthesis run (creating the session and running the synthesis agent: an exception or
  the events), and the text Python gives for a value (\<^verbatim>\<open>str\<close>, also inside an f-string).\<close>

record workflow_env =
  transcribe_audio :: "bytes \<Rightarrow> string \<Rightarrow> exn + pyval"
  evaluate :: "pydict \<Rightarrow> pyval \<Rightarrow> exn + pyval"
  coach :: "bytes \<Rightarrow> string \<Rightarrow> pyval \<Rightarrow> exn + pyval"
  synthesis_run :: "exn + event list"
  py_str :: "pyval \<Rightarrow> string"

record workflow_metrics =
  successful_workflows :: nat
  content_and_delivery_analyzed :: nat
  failed_workflows :: nat

text \<open>An absent \<^verbatim>\<open>workflow_id\<close> is \<^verbatim>\<open>None\<close>.\<close>

definition generate_fallback_delivery_analysis :: "job \<Rightarrow> pyval \<Rightarrow> string \<Rightarrow> pydict" where
  "generate_fallback_delivery_analysis j workflow_id error =
     [ (''overall_score'', PInt 5),
       (''delivery_assessment'', PStr (if error \<noteq> [] then ''Delivery analysis unavailable. '' @ error
                                       else ''Delivery analysis temporarily unavailable.'')),
       (''strengths'', PList [PStr (''Provided response for '' @ industry j @ '' interview''),
                              PStr ''Attempted comprehensive answer'']),
       (''improvements'', PList [PStr ''Focus on clear delivery'', PStr ''Practice professional communication'']),
       (''coaching_tips'', PList [PStr ''Practice speaking clearly'', PStr ''Record yourself for self-assessment'']),
       (''industry_advice'', PStr (''For '' @ industry j @ '' interviews, focus on clear, confident communication.'')),
       (''detailed_scores'', PDict []),
       (''workflow_id'', workflow_id),
       (''analysis_type'', PStr ''delivery_fallback'') ]"

definition generate_fallback_synthesis :: "job \<Rightarrow> workflow_env \<Rightarrow> pydict \<Rightarrow> pydict \<Rightarrow> string \<Rightarrow> exn + pydict" where
  "generate_fallback_synthesis j env content_analysis delivery_analysis workflow_id =
     (let content_score = dict_get content_analysis ''score'' (PInt 0);
          delivery_score = dict_get delivery_analysis ''overall_score'' (PInt 0)
      in case (num_of content_score, num_of delivery_score) of
           (Some c, Some d) \<Rightarrow>
             let overall_score = c * (6 / 10) + d * (4 / 10) in
             try_bind (py_slice 2 (dict_get content_analysis ''strengths'' (PList []))) (\<lambda>cs.
             try_bind (py_slice 1 (dict_get delivery_analysis ''strengths'' (PList []))) (\<lambda>ds.
             try_bind (py_concat cs ds) (\<lambda>combined_strengths.
             try_bind (py_slice 2 (dict_get content_analysis ''improvements'' (PList []))) (\<lambda>ci.
             try_bind (py_slice 1 (dict_get delivery_analysis ''improvements'' (PList []))) (\<lambda>di.
             try_bind (py_concat ci di) (\<lambda>priority_improvements.
               Inr [ (''overall_score'', PFloat overall_score),
                     (''comprehensive_assessment'', PStr (
                        ''Combined content and delivery analysis completed. Content scored ''
                        @ py_str env content_score @ ''/10, delivery scored ''
                        @ py_str env delivery_score @ ''/10.'')),
                     (''combined_strengths'', combined_strengths),
                     (''priority_improvements'', priority_improvements),
                     (''industry_feedback'', PStr (''For '' @ industry j @
                        '' interviews, continue developing both content knowledge and professional delivery.'')),
                     (''interview_readiness'', PStr ''Developing - continue practicing both content and delivery''),
                     (''development_plan'', PStr
                        ''Practice regularly with focus on both technical content and clear communication delivery''),
                     (''workflow_id'', PStr workflow_id),
                     (''component_scores'', PDict [(''content_score'', content_score),
                                                   (''delivery_score'', delivery_score)]) ]))))))
         | _ \<Rightarrow> Inl (Exn ''TypeError'' ''unsupported operand type(s) for * or +''))"

definition parse_synthesis_response :: "string \<Rightarrow> pydict \<Rightarrow> pydict \<Rightarrow> pydict" where
  "parse_synthesis_response synthesis_text content_analysis delivery_analysis =
     [ (''overall_score'',
          (case re_search (match_decimal ''Overall Interview Score:'') synthesis_text of
             None \<Rightarrow> PInt 5 | Some g \<Rightarrow> PFloat (float_of_digits g))),
       (''comprehensive_assessment'',
          str_or [] (re_search (match_section ''Comprehensive Assessment:'' True
                       (\<lambda>t. starts_with t (nl # ''COMBINED STRENGTHS:'') \<or> at_end t)) synthesis_text)),
       (''combined_strengths'', list_or_empty (parse_list_section ''COMBINED STRENGTHS'' synthesis_text)),
       (''priority_improvements'', list_or_empty (parse_list_section ''PRIORITY IMPROVEMENTS'' synthesis_text)),
       (''industry_feedback'',
          str_or [] (re_search (match_section ''INDUSTRY-SPECIFIC FEEDBACK:'' True
                       (\<lambda>t. starts_with t (nl # ''INTERVIEW READINESS:'') \<or> at_end t)) synthesis_text)),
       (''interview_readiness'',
          str_or [] (re_search (match_section ''INTERVIEW READINESS:'' True
                       (\<lambda>t. starts_with t (nl # ''DEVELOPMENT PLAN:'') \<or> at_end t)) synthesis_text)),
       (''development_plan'',
          str_or [] (re_search (match_section ''DEVELOPMENT PLAN:'' True at_end) synthesis_text)),
       (''component_scores'', PDict [
          (''content_score'', dict_get content_analysis ''score'' (PInt 0)),
          (''delivery_score'', dict_get delivery_analysis ''overall_score'' (PInt 0))]) ]"

text \<open>Building the synthesis prompt joins the first three strengths and improvements of
  both analyses; it raises when one of them is not a list of strings or a string.\<close>

definition prompt_part_ok :: "pydict \<Rightarrow> string \<Rightarrow> bool" where
  "prompt_part_ok d k = (case py_slice 3 (dict_get d k (PList [])) of Inl e \<Rightarrow> False | Inr v \<Rightarrow> joinable v)"

definition synthesis_prompt_ok :: "pydict \<Rightarrow> pydict \<Rightarrow> bool" where
  "synthesis_prompt_ok content_analysis delivery_analysis =
     (prompt_part_ok content_analysis ''strengths'' \<and> prompt_part_ok content_analysis ''improvements'' \<and>
      prompt_part_ok delivery_analysis ''strengths'' \<and> prompt_part_ok delivery_analysis ''improvements'')"

text \<open>\<^verbatim>\<open>_synthesize_evaluations\<close>: anything raised in the \<^verbatim>\<open>try\<close> block (the session, the
  prompt, the run) leads to the fallback synthesis, which may raise itself.\<close>

definition synthesize_evaluations :: "job \<Rightarrow> workflow_env \<Rightarrow> pydict \<Rightarrow> pydict \<Rightarrow> string \<Rightarrow> exn + pydict" where
  "synthesize_evaluations j env content_analysis delivery_analysis workflow_id =
     (case (if synthesis_prompt_ok content_analysis delivery_analysis then synthesis_run env
            else Inl (Exn ''TypeError'' ''sequence item: expected str instance'')) of
        Inl e \<Rightarrow> generate_fallback_synthesis j env content_analysis delivery_analysis workflow_id
      | Inr events \<Rightarrow>
          Inr (dict_set (parse_synthesis_response (extract_final_response events)
                           content_analysis delivery_analysis)
                 ''workflow_id'' (PStr workflow_id)))"

definition compile_enhanced_result :: "job \<Rightarrow> string \<Rightarrow> pydict \<Rightarrow> pydict \<Rightarrow> pydict \<Rightarrow> pydict \<Rightarrow> pyval" where
  "compile_enhanced_result j workflow_id content_analysis delivery_analysis synthesis_result question =
     PDict [
       (''workflow_id'', PStr workflow_id),
       (''status'', PStr ''success''),
       (''evaluation_type'', PStr ''enhanced_voice_analysis''),
       (''question'', PDict question),
       (''score'', dict_get synthesis_result ''overall_score'' (PInt 5)),
       (''overall_assessment'', dict_get synthesis_result ''comprehensive_assessment'' (PStr [])),
       (''strengths'', dict_get synthesis_result ''combined_strengths'' (PList [])),
       (''improvements'', dict_get synthesis_result ''priority_improvements'' (PList [])),
       (''industry_feedback'', dict_get synthesis_result ''industry_feedback'' (PStr [])),
       (''interview_readiness'', dict_get synthesis_result ''interview_readiness'' (PStr [])),
       (''development_plan'', dict_get synthesis_result ''development_plan'' (PStr [])),
       (''content_analysis'', PDict [
          (''score'', dict_get content_analysis ''score'' (PInt 0)),
          (''assessment'', dict_get content_analysis ''overall_assessment'' (PStr [])),
          (''strengths'', dict_get content_analysis ''strengths'' (PList [])),
          (''improvements'', dict_get content_analysis ''improvements'' (PList [])),
          (''star_analysis'', dict_get content_analysis ''star_analysis'' (PDict [])),
          (''transcription_metadata'', dict_get content_analysis ''transcription_metadata'' (PDict []))]),
       (''delivery_analysis'', PDict [
          (''score'', dict_get delivery_analysis ''overall_score'' (PInt 0)),
          (''assessment'', dict_get delivery_analysis ''delivery_assessment'' (PStr [])),
          (''strengths'', dict_get delivery_analysis ''strengths'' (PList [])),
          (''improvements'', dict_get delivery_analysis ''improvements'' (PList [])),
          (''detailed_scores'', dict_get delivery_analysis ''detailed_scores'' (PDict [])),
          (''coaching_tips'', dict_get delivery_analysis ''coaching_tips'' (PList [])),
          (''industry_advice'', dict_get delivery_analysis ''industry_advice'' (PStr []))]),
       (''competency'', dict_get question ''competency'' PNone),
       (''workflow_metadata'', PDict [
          (''parallel_analysis'', PBool True),
          (''content_and_delivery'', PBool True),
          (''industry'', PStr (industry j)),
          (''job_title'', PStr (job_title j)),
          (''audio_processed'', PBool True)]) ]"

definition generate_error_result :: "job \<Rightarrow> workflow_env \<Rightarrow> string \<Rightarrow> string \<Rightarrow> pyval \<Rightarrow> pyval" where
  "generate_error_result j env workflow_id stage error_details =
     PDict [
       (''workflow_id'', PStr workflow_id),
       (''status'', PStr ''failed''),
       (''stage'', PStr stage),
       (''error'', PStr (case error_details of PStr t \<Rightarrow> t | _ \<Rightarrow> py_str env error_details)),
       (''evaluation_type'', PStr ''enhanced_voice_analysis_failed''),
       (''score'', PInt 0),
       (''overall_assessment'', PStr (''Analysis failed at '' @ stage @ '' stage. Please try again.'')),
       (''strengths'', PList []),
       (''improvements'', PList [PStr ''Try recording again with clear audio'',
                                 PStr ''Ensure stable internet connection'']),
       (''workflow_metadata'', PDict [
          (''parallel_analysis'', PBool False),
          (''error_stage'', PStr stage),
          (''industry'', PStr (industry j))]) ]"

text \<open>\<^verbatim>\<open>_analyze_content\<close>: the \<^verbatim>\<open>try\<close> block, then the handler that turns whatever was
  raised into a failure report.\<close>

definition analyze_content_attempt :: "workflow_env \<Rightarrow> bytes \<Rightarrow> string \<Rightarrow> pydict \<Rightarrow> string \<Rightarrow> exn + pydict" where
  "analyze_content_attempt env audio_data mime_type question workflow_id =
     try_bind (transcribe_audio env audio_data mime_type) (\<lambda>transcription_result.
     try_bind (subscript transcription_result ''status'') (\<lambda>status.
       if status \<noteq> PStr ''success'' then
         Inr [ (''status'', PStr ''failed''),
               (''stage'', PStr ''transcription''),
               (''error'', (case transcription_result of
                              PDict d \<Rightarrow> dict_get d ''error'' (PStr ''Transcription failed'')
                            | _ \<Rightarrow> PStr ''Transcription failed'')),
               (''workflow_id'', PStr workflow_id) ]
       else
         try_bind (subscript transcription_result ''transcribed_text'') (\<lambda>transcribed_text.
         try_bind (evaluate env question transcribed_text) (\<lambda>evaluation.
         try_bind (case transcribed_text of
                     PStr t \<Rightarrow> Inr (PInt (int (length (py_split t))))
                   | _ \<Rightarrow> Inl (Exn ''AttributeError'' ''object has no attribute split'')) (\<lambda>word_count.
           case evaluation of
             PDict ev \<Rightarrow>
               Inr (dict_set (dict_set (dict_set (dict_set ev
                      ''transcription_metadata'' (PDict [
                          (''original_text'', transcribed_text),
                          (''word_count'', word_count),
                          (''audio_processed'', PBool True),
                          (''validation'', (case transcription_result of
                                              PDict d \<Rightarrow> dict_get d ''validation'' (PDict [])
                                            | _ \<Rightarrow> PDict []))]))
                      ''status'' (PStr ''success''))
                      ''workflow_id'' (PStr workflow_id))
                      ''analysis_type'' (PStr ''content''))
           | _ \<Rightarrow> Inl (Exn ''TypeError'' ''object does not support item assignment''))))))"

definition analyze_content :: "workflow_env \<Rightarrow> bytes \<Rightarrow> string \<Rightarrow> pydict \<Rightarrow> string \<Rightarrow> exn + pydict" where
  "analyze_content env audio_data mime_type question workflow_id =
     (case analyze_content_attempt env audio_data mime_type question workflow_id of
        Inl e \<Rightarrow> Inr [ (''status'', PStr ''failed''),
                       (''stage'', PStr ''content_analysis''),
                       (''error'', PStr (str_exn e)),
                       (''workflow_id'', PStr workflow_id) ]
      | Inr evaluation \<Rightarrow> Inr evaluation)"

text \<open>\<^verbatim>\<open>_analyze_delivery\<close>, in the same way.\<close>

definition delivery_context :: "pydict \<Rightarrow> string \<Rightarrow> pyval" where
  "delivery_context question workflow_id =
     PDict [ (''competency'', dict_get question ''competency'' PNone),
             (''question_type'', PStr ''interview_response''),
             (''workflow_id'', PStr workflow_id) ]"

definition analyze_delivery_attempt :: "workflow_env \<Rightarrow> bytes \<Rightarrow> string \<Rightarrow> pydict \<Rightarrow> string \<Rightarrow> exn + pydict" where
  "analyze_delivery_attempt env audio_data mime_type question workflow_id =
     try_bind (coach env audio_data mime_type (delivery_context question workflow_id)) (\<lambda>delivery_analysis.
       case delivery_analysis of
         PDict d \<Rightarrow> Inr (dict_set (dict_set d ''analysis_type'' (PStr ''delivery''))
                             ''workflow_id'' (PStr workflow_id))
       | _ \<Rightarrow> Inl (Exn ''TypeError'' ''object does not support item assignment''))"

definition analyze_delivery :: "job \<Rightarrow> workflow_env \<Rightarrow> bytes \<Rightarrow> string \<Rightarrow> pydict \<Rightarrow> string \<Rightarrow> exn + pydict" where
  "analyze_delivery j env audio_data mime_type question workflow_id =
     (case analyze_delivery_attempt env audio_data mime_type question workflow_id of
        Inl e \<Rightarrow> Inr (generate_fallback_delivery_analysis j (PStr workflow_id) (str_exn e))
      | Inr delivery_analysis \<Rightarrow> Inr delivery_analysis)"

text \<open>\<^verbatim>\<open>_run_parallel_analysis\<close>: both branches are awaited with their exceptions captured;
  a captured exception is replaced by a failure report or by the fallback delivery.\<close>

definition run_parallel_analysis :: "job \<Rightarrow> workflow_env \<Rightarrow> bytes \<Rightarrow> string \<Rightarrow> pydict \<Rightarrow> string \<Rightarrow> pydict \<times> pydict" where
  "run_parallel_analysis j env audio_data mime_type question workflow_id =
     (let content_result = analyze_content env audio_data mime_type question workflow_id;
          delivery_result = analyze_delivery j env audio_data mime_type question workflow_id
      in ((case content_result of
             Inl e \<Rightarrow> [(''status'', PStr ''failed''), (''error'', PStr (str_exn e))]
           | Inr d \<Rightarrow> d),
          (case delivery_result of
             Inl e \<Rightarrow> generate_fallback_delivery_analysis j PNone []
           | Inr d \<Rightarrow> d)))"

text \<open>\<^verbatim>\<open>process_voice_question_response\<close>: the \<^verbatim>\<open>try\<close> block with the metrics it
  updates, then the handler. The workflow identifier, random in the source, is given.\<close>

definition process_attempt ::
  "job \<Rightarrow> workflow_env \<Rightarrow> workflow_metrics \<Rightarrow> pydict \<Rightarrow> bytes \<Rightarrow> string \<Rightarrow> string
     \<Rightarrow> exn + pyval \<times> workflow_metrics" where
  "process_attempt j env metrics question audio_data mime_type workflow_id =
     (case run_parallel_analysis j env audio_data mime_type question workflow_id of
        (content_analysis, delivery_analysis0) \<Rightarrow>
          if content_analysis = [] \<or> dict_get content_analysis ''status'' PNone \<noteq> PStr ''success'' then
            Inr (generate_error_result j env workflow_id ''content_analysis'' (PDict content_analysis), metrics)
          else
            try_bind (if delivery_analysis0 = [] then Inr True
                      else py_negative (dict_get delivery_analysis0 ''overall_score'' (PInt 0))) (\<lambda>delivery_failed.
              let delivery_analysis = (if delivery_failed then generate_fallback_delivery_analysis j PNone []
                                       else delivery_analysis0)
              in try_bind (synthesize_evaluations j env content_analysis delivery_analysis workflow_id)
                   (\<lambda>synthesis_result.
                      Inr (compile_enhanced_result j workflow_id content_analysis delivery_analysis
                             synthesis_result question,
                           metrics\<lparr> successful_workflows := successful_workflows metrics + 1,
                                    content_and_delivery_analyzed := content_and_delivery_analyzed metrics + 1 \<rparr>))))"

definition process_voice_question_response ::
  "job \<Rightarrow> workflow_env \<Rightarrow> workflow_metrics \<Rightarrow> pydict \<Rightarrow> bytes \<Rightarrow> string \<Rightarrow> string
     \<Rightarrow> pyval \<times> workflow_metrics" where
  "process_voice_question_response j env metrics question audio_data mime_type workflow_id =
     (case process_attempt j env metrics question audio_data mime_type workflow_id of
        Inl e \<Rightarrow> (generate_error_result j env workflow_id ''workflow_error'' (PStr (str_exn e)),
                  metrics\<lparr> failed_workflows := failed_workflows metrics + 1 \<rparr>)
      | Inr r \<Rightarrow> r)"

text \<open>An evaluation as the competency agent builds it: a numeric score, lists of strings
  for the strengths and the improvements.\<close>

fun is_str_list :: "pyval \<Rightarrow> bool" where
  "is_str_list (PList xs) = list_all is_str xs"
| "is_str_list v = False"

definition well_formed_evaluation :: "pydict \<Rightarrow> bool" where
  "well_formed_evaluation ev =
     (num_of (dict_get ev ''score'' (PInt 0)) \<noteq> None \<and>
      is_str_list (dict_get ev ''strengths'' (PList [])) \<and>
      is_str_list (dict_get ev ''improvements'' (PList [])))"

text \<open>Reading an entry of an entry of a result.\<close>

definition field2 :: "pyval \<Rightarrow> string \<Rightarrow> string \<Rightarrow> pyval option" where
  "field2 v k1 k2 = (case field v k1 of None \<Rightarrow> None | Some w \<Rightarrow> field w k2)"

section \<open>Streamlined workflow: combining two evaluations\<close>





section \<open>Job analyzer: competencies\<close>

text \<open>The fields of the AI analysis that \<^verbatim>\<open>_extract_competencies\<close> reads, each a list of
  strings.\<close>

record ai_analysis =
  responsibilities :: "string list"
  requirements :: "string list"
  skills :: "string list"

definition competency_keywords :: "(string \<times> string list) list" where
  "competency_keywords = [
     (''Problem Solving'', [''problem'', ''solve'', ''troubleshoot'', ''debug'', ''resolve'', ''solution'']),
     (''Technical Expertise'', [''technical'', ''development'', ''programming'', ''coding'', ''engineering'']),
     (''Project Management'', [''project'', ''manage'', ''timeline'', ''deadline'', ''coordinate'', ''plan'']),
     (''Analytical Thinking'', [''analyze'', ''data'', ''insight'', ''research'', ''evaluate'', ''assess'']),
     (''Attention to Detail'', [''detail'', ''quality'', ''accuracy'', ''precision'', ''thorough'', ''careful'']),
     (''Written Communication'', [''communication'', ''document'', ''write'', ''report'', ''present'']),
     (''Leadership'', [''lead'', ''manage'', ''mentor'', ''guide'', ''direct'', ''supervise'']),
     (''Teamwork'', [''team'', ''collaborate'', ''cooperation'', ''work with others''])]"

definition essential :: "string list" where
  "essential = [''Problem Solving'', ''Technical Expertise'', ''Analytical Thinking'']"

text \<open>The score of one competency: the occurrences of its keywords in the lower-cased
  description, then in the lower-cased text of the AI analysis.\<close>

definition count_keywords :: "string \<Rightarrow> string list \<Rightarrow> nat \<Rightarrow> nat" where
  "count_keywords text keywords score0 =
     fold (\<lambda>keyword score. if contains text keyword then score + py_count text keyword else score)
       keywords score0"

definition keyword_score :: "string \<Rightarrow> string \<Rightarrow> string list \<Rightarrow> nat" where
  "keyword_score text_lower ai_text keywords =
     count_keywords ai_text keywords (count_keywords text_lower keywords 0)"

text \<open>The counter of the competencies with a positive score, in the order of the table.\<close>

definition competency_scores :: "string \<Rightarrow> string \<Rightarrow> (string \<times> nat) list" where
  "competency_scores text_lower ai_text =
     fold (\<lambda>(competency, keywords) counter.
             let score = keyword_score text_lower ai_text keywords
             in if score > 0 then dict_set counter competency score else counter)
       competency_keywords []"

text \<open>\<^verbatim>\<open>Counter.most_common(n)\<close>: by descending count, equal counts in the order of
  insertion.\<close>

definition most_common :: "nat \<Rightarrow> (string \<times> nat) list \<Rightarrow> (string \<times> nat) list" where
  "most_common n counter = take n (sort_key (\<lambda>(c, count). - int count) counter)"

definition extract_competencies :: "string \<Rightarrow> ai_analysis \<Rightarrow> string list" where
  "extract_competencies text ai =
     (let text_lower = py_lower text;
          ai_text = py_lower (py_join '' '' (responsibilities ai @ requirements ai @ skills ai));
          competency_scores = competency_scores text_lower ai_text;
          selected_competencies = map fst (most_common 6 competency_scores);
          selected_competencies = fold (\<lambda>essential_comp selected.
                                          if essential_comp \<notin> set selected then selected @ [essential_comp]
                                          else selected)
                                    essential selected_competencies
      in take 8 selected_competencies)"

text \<open>The score of a competency by name; a name outside the table scores 0.\<close>

definition score_of :: "string \<Rightarrow> ai_analysis \<Rightarrow> string \<Rightarrow> nat" where
  "score_of text ai competency =
     (case map_of competency_keywords competency of
        None \<Rightarrow> 0
      | Some keywords \<Rightarrow>
          keyword_score (py_lower text)
            (py_lower (py_join '' '' (responsibilities ai @ requirements ai @ skills ai))) keywords)"

section \<open>Transcription: the size gate\<close>

lemma generate_error_response_fields:
  "field (generate_error_response a m) ''status'' = Some (PStr ''failed'')"
  "field (generate_error_response a m) ''transcribed_text'' = Some (PStr [])"
  "field (generate_error_response a m) ''word_count'' = Some (PInt 0)"
  by (simp_all add: generate_error_response_def Let_def)

text \<open>
  C6. Audio of fewer than 1000 bytes is refused before anything is sent to the runner:
  the result has status \<^verbatim>\<open>failed\<close>, an empty \<^verbatim>\<open>transcribed_text\<close> and
  \<^verbatim>\<open>word_count\<close> 0, and the list of requests is empty. Audio of 1000 bytes or more,
  once the session exists, is sent to the runner exactly once.
\<close>

theorem transcribe_size_gate:
  "(length audio_data < 1000 \<longrightarrow>
      snd (transcribe_audio_bytes env audio_data mime_type) = [] \<and>
      field (fst (transcribe_audio_bytes env audio_data mime_type)) ''status'' = Some (PStr ''failed'') \<and>
      field (fst (transcribe_audio_bytes env audio_data mime_type)) ''transcribed_text'' = Some (PStr []) \<and>
      field (fst (transcribe_audio_bytes env audio_data mime_type)) ''word_count'' = Some (PInt 0)) \<and>
   (1000 \<le> length audio_data \<and> create_session env = None \<longrightarrow>
      snd (transcribe_audio_bytes env audio_data mime_type) = [(mime_type, audio_data)])"
proof (intro conjI impI)
  assume small: "length audio_data < 1000"
  then have eq: "transcribe_audio_bytes env audio_data mime_type =
      (generate_error_response audio_data
         (''Audio data too small: '' @ show_nat (length audio_data) @ '' bytes. Need at least 1KB.''), [])"
    by (simp add: transcribe_audio_bytes_def)
  show "snd (transcribe_audio_bytes env audio_data mime_type) = []"
    by (simp add: eq)
  show "field (fst (transcribe_audio_bytes env audio_data mime_type)) ''status'' = Some (PStr ''failed'')"
    by (simp add: eq generate_error_response_fields)
  show "field (fst (transcribe_audio_bytes env audio_data mime_type)) ''transcribed_text'' = Some (PStr [])"
    by (simp add: eq generate_error_response_fields)
  show "field (fst (transcribe_audio_bytes env audio_data mime_type)) ''word_count'' = Some (PInt 0)"
    by (simp add: eq generate_error_response_fields)
next
  assume big: "1000 \<le> length audio_data \<and> create_session env = None"
  then have ne: "audio_data \<noteq> []" by auto
  from big ne show "snd (transcribe_audio_bytes env audio_data mime_type) = [(mime_type, audio_data)]"
    by (simp add: transcribe_audio_bytes_def Let_def split: sum.splits)
qed

theorem transcribe_size_gate_witness:
  "snd (transcribe_audio_bytes \<lparr>create_session = None, run_async = (\<lambda>m a. Inr [])\<rparr>
          (replicate 999 0) ''audio/wav'') = [] \<and>
   field (fst (transcribe_audio_bytes \<lparr>create_session = None, run_async = (\<lambda>m a. Inr [])\<rparr>
          (replicate 999 0) ''audio/wav'')) ''status'' = Some (PStr ''failed'') \<and>
   snd (transcribe_audio_bytes \<lparr>create_session = None, run_async = (\<lambda>m a. Inr [])\<rparr>
          (replicate 1001 0) ''audio/wav'') = [(''audio/wav'', replicate 1001 0)]"
  using transcribe_size_gate [of "replicate 999 0" "\<lparr>create_session = None, run_async = (\<lambda>m a. Inr [])\<rparr>" "''audio/wav''"]
        transcribe_size_gate [of "replicate 1001 0" "\<lparr>create_session = None, run_async = (\<lambda>m a. Inr [])\<rparr>" "''audio/wav''"]
  by simp

section \<open>Transcription: validation\<close>

lemmas string_eval =
  py_split_def py_strip_def py_lower_def lower_char_def is_space_def is_digit_def
  has_punctuation_def Let_def

text \<open>
  C7, as stated, fails: for the one-word transcript \<^verbatim>\<open>Stop.\<close> with an estimated duration
  of 5 seconds the checks as the specification words them pass three times (punctuation,
  one distinct word against a third of one word, duration), which would give confidence
  0.6 and a valid transcript; the code passes two, gives confidence 0.4 and rejects it.
\<close>

theorem validate_claimed_checks_counterexample:
  "''Stop.'' \<noteq> [] \<and>
   length (filter id (claimed_validations ''Stop.'' 5)) = 3 \<and>
   field (projr (validate_transcription ''Stop.'' [(''estimated_duration'', PFloat 5)])) ''confidence''
     = Some (PFloat (2 / 5)) \<and>
   field (projr (validate_transcription ''Stop.'' [(''estimated_duration'', PFloat 5)])) ''valid''
     = Some (PBool False)"
  by (simp add: claimed_validations_def validate_transcription_def validations_def dict_get_def
       string_eval)

text \<open>
  C7, amended. For a transcript that is not blank and metadata whose estimated duration is
  a number, validation succeeds and evaluates five checks: at least 3 words; a length
  between 10 and 2000; one of the characters \<^verbatim>\<open>.!?\<close> somewhere in the text; more distinct
  lower-cased words than the larger of 1 and a third of the word count rounded down; an
  estimated duration above 1. The confidence is the number of passed checks over 5 and the
  transcript is valid exactly when at least 3 checks pass; so 5 of 5 gives confidence 1
  and a valid transcript, and 2 of 5 gives 0.4 and an invalid one.
\<close>

theorem validate_transcription_confidence:
  assumes "py_strip text \<noteq> []"
    and "num_of (dict_get audio_info ''estimated_duration'' (PInt 0)) = Some dur"
    and "passed = length (filter id
           [ 3 \<le> length (py_split text),
             10 \<le> length text \<and> length text \<le> 2000,
             \<exists>c \<in> {CHR ''.'', CHR ''!'', CHR ''?''}. c \<in> set text,
             max 1 (length (py_split text) div 3) < card (set (py_split (py_lower text))),
             1 < dur ])"
  shows "\<exists>res. validate_transcription text audio_info = Inr res \<and>
           field res ''confidence'' = Some (PFloat (rat_of_nat passed / 5)) \<and>
           field res ''valid'' = Some (PBool (3 \<le> passed)) \<and>
           passed \<le> 5 \<and>
           (passed = 5 \<longrightarrow> field res ''confidence'' = Some (PFloat 1) \<and> field res ''valid'' = Some (PBool True)) \<and>
           (passed = 2 \<longrightarrow> field res ''confidence'' = Some (PFloat (2 / 5)) \<and> field res ''valid'' = Some (PBool False))"
proof -
  have ne: "text \<noteq> []"
    using assms(1) by (auto simp: py_strip_def)
  have checks: "passed = length (filter id (validations text dur))"
    unfolding assms(3) validations_def has_punctuation_def Let_def
    by (simp add: length_remdups_card_conv)
  have len: "length (validations text dur) = 5"
    by (simp add: validations_def Let_def)
  have le: "passed \<le> 5"
    unfolding checks using length_filter_le [of id "validations text dur"] len by simp
  have valid: "(6 / 10 \<le> rat_of_nat passed / 5) = (3 \<le> passed)"
  proof -
    have "(6 / 10 \<le> rat_of_nat passed / 5) = (rat_of_nat 3 \<le> rat_of_nat passed)"
      by (simp add: field_simps)
    then show ?thesis by (simp only: of_nat_le_iff)
  qed
  have res: "validate_transcription text audio_info = Inr (PDict [
        (''valid'', PBool (3 \<le> passed)),
        (''confidence'', PFloat (rat_of_nat passed / 5)),
        (''word_count'', PInt (int (length (py_split text)))),
        (''estimated_duration'', dict_get audio_info ''estimated_duration'' (PInt 0)),
        (''checks'', PDict (zip check_names (map PBool (validations text dur))))])"
    using assms(1,2) ne valid
    by (simp add: validate_transcription_def Let_def checks [symmetric] len)
  show ?thesis
    using le by (simp add: res)
qed

theorem validate_transcription_confidence_witness:
  "(\<exists>res. validate_transcription ''I led the team well.'' [(''estimated_duration'', PFloat 5)] = Inr res \<and>
      field res ''confidence'' = Some (PFloat 1) \<and> field res ''valid'' = Some (PBool True)) \<and>
   (\<exists>res. validate_transcription ''Hi there'' [(''estimated_duration'', PFloat 5)] = Inr res \<and>
      field res ''confidence'' = Some (PFloat (2 / 5)) \<and> field res ''valid'' = Some (PBool False))"
proof -
  have a1: "py_strip ''I led the team well.'' \<noteq> []"
    by (simp add: string_eval)
  have a2: "num_of (dict_get [(''estimated_duration'', PFloat 5)] ''estimated_duration'' (PInt 0)) = Some 5"
    by (simp add: dict_get_def)
  have a3: "5 = length (filter id
           [ 3 \<le> length (py_split ''I led the team well.''),
             10 \<le> length ''I led the team well.'' \<and> length ''I led the team well.'' \<le> 2000,
             \<exists>c \<in> {CHR ''.'', CHR ''!'', CHR ''?''}. c \<in> set ''I led the team well.'',
             max 1 (length (py_split ''I led the team well.'') div 3)
               < card (set (py_split (py_lower ''I led the team well.''))),
             1 < (5::rat) ])"
    by (simp add: string_eval)
  have b1: "py_strip ''Hi there'' \<noteq> []"
    by (simp add: string_eval)
  have b3: "2 = length (filter id
           [ 3 \<le> length (py_split ''Hi there''),
             10 \<le> length ''Hi there'' \<and> length ''Hi there'' \<le> 2000,
             \<exists>c \<in> {CHR ''.'', CHR ''!'', CHR ''?''}. c \<in> set ''Hi there'',
             max 1 (length (py_split ''Hi there'') div 3)
               < card (set (py_split (py_lower ''Hi there''))),
             1 < (5::rat) ])"
    by (simp add: string_eval)
  from validate_transcription_confidence [OF a1 a2 a3]
       validate_transcription_confidence [OF b1 a2 b3]
  show ?thesis by auto
qed

section \<open>Progress trend\<close>





section \<open>Speech coach: audio that is too small\<close>

text \<open>
  C5, as stated, fails: for 500 bytes of audio \<^verbatim>\<open>analyze_speech_delivery\<close> does not raise;
  it returns a result, the fallback analysis with overall score 5.
\<close>

theorem analyze_speech_small_audio_counterexample:
  "length (replicate 500 (0::nat)) < 1000 \<and>
   \<not> isl (analyze_speech_delivery \<lparr>industry = ''technology'', job_title = ''professional''\<rparr>
            \<lparr>create_session = None, run_async = (\<lambda>m a. Inr [])\<rparr>
            (replicate 500 0) ''audio/wav'' PNone) \<and>
   field (projr (analyze_speech_delivery \<lparr>industry = ''technology'', job_title = ''professional''\<rparr>
            \<lparr>create_session = None, run_async = (\<lambda>m a. Inr [])\<rparr>
            (replicate 500 0) ''audio/wav'' PNone)) ''overall_score'' = Some (PInt 5)"
  by (simp add: analyze_speech_delivery_def speech_analysis_attempt_def generate_fallback_analysis_def)

text \<open>
  C5, amended. For audio of fewer than 1000 bytes the \<^verbatim>\<open>ValueError\<close> is raised inside
  the \<^verbatim>\<open>try\<close> block and caught there: the call returns the fallback analysis built
  from the error text \<^verbatim>\<open>Audio data too small: N bytes\<close>, with overall score 5. The
  call never raises, whatever the audio.
\<close>

theorem analyze_speech_small_audio:
  "(length audio_data < 1000 \<longrightarrow>
      speech_analysis_attempt j env audio_data mime_type context =
        Inl (Exn ''ValueError'' (''Audio data too small: '' @ show_nat (length audio_data) @ '' bytes'')) \<and>
      analyze_speech_delivery j env audio_data mime_type context =
        Inr (generate_fallback_analysis j audio_data
               (''Audio data too small: '' @ show_nat (length audio_data) @ '' bytes'') context) \<and>
      field (projr (analyze_speech_delivery j env audio_data mime_type context)) ''overall_score''
        = Some (PInt 5)) \<and>
   \<not> isl (analyze_speech_delivery j env audio_data mime_type context)"
  by (auto simp: analyze_speech_delivery_def speech_analysis_attempt_def generate_fallback_analysis_def
      split: sum.splits)

theorem analyze_speech_small_audio_witness:
  "analyze_speech_delivery \<lparr>industry = ''sales'', job_title = ''manager''\<rparr>
      \<lparr>create_session = None, run_async = (\<lambda>m a. Inr [])\<rparr> (replicate 999 0) ''audio/mp3'' PNone =
     Inr (generate_fallback_analysis \<lparr>industry = ''sales'', job_title = ''manager''\<rparr> (replicate 999 0)
            ''Audio data too small: 999 bytes'' PNone)"
  using analyze_speech_small_audio [of "replicate 999 0" "\<lparr>industry = ''sales'', job_title = ''manager''\<rparr>"
      "\<lparr>create_session = None, run_async = (\<lambda>m a. Inr [])\<rparr>" "''audio/mp3''" PNone]
  by (simp add: digit_char_def)

section \<open>Competency agent: the range of the score\<close>

text \<open>
  C4, as stated, fails on the parse path: when the model answers \<^verbatim>\<open>Score: 15/10\<close> the
  evaluation has score 15.
\<close>

theorem evaluate_answer_score_counterexample:
  "field (evaluate_answer ''Problem Solving'' \<lparr>industry = ''technology'', job_title = ''position''\<rparr>
            (Inr [[''Score: 15/10'']]) ''I fixed the bug.'') ''score'' = Some (PInt 15) \<and>
   \<not> (15 \<le> (10::int))"
  by (simp add: evaluate_answer_def extract_final_response_or_default_def first_text_def
      parse_evaluation_response_def match_int_def is_space_def is_digit_def int_of_digits_def
      digit_val_def)

lemma fallback_score_range: "5 \<le> fallback_score answer \<and> fallback_score answer \<le> 8"
  by (simp add: fallback_score_def Let_def)

text \<open>
  C4, amended. The score of an evaluation is an integer that is not negative. On the
  heuristic fallback path (the call to the model raises) it lies between 5 and 8. On the
  parse path it is 5 when the response has no \<^verbatim>\<open>Score:\<close> followed by digits, and otherwise
  the number written there, which is within 0 to 10 exactly when the response keeps to
  that range.
\<close>

theorem evaluate_answer_score:
  "(\<exists>n. field (evaluate_answer competency j outcome answer) ''score'' = Some (PInt (int n))) \<and>
   (isl outcome \<longrightarrow>
      (\<exists>n. field (evaluate_answer competency j outcome answer) ''score'' = Some (PInt n) \<and> 5 \<le> n \<and> n \<le> 8)) \<and>
   (\<forall>events. outcome = Inr events \<longrightarrow>
      field (evaluate_answer competency j outcome answer) ''score'' =
        Some (PInt (case re_search (match_int ''Score:'') (extract_final_response_or_default events) of
                      None \<Rightarrow> 5 | Some ds \<Rightarrow> int (int_of_digits ds))))"
proof (intro conjI)
  show "\<exists>n. field (evaluate_answer competency j outcome answer) ''score'' = Some (PInt (int n))"
  proof (cases outcome)
    case (Inl e)
    have "0 \<le> fallback_score answer" using fallback_score_range [of answer] by simp
    then obtain n where "fallback_score answer = int n" using nonneg_int_cases by blast
    then show ?thesis
      by (simp add: Inl evaluate_answer_def generate_fallback_evaluation_def)
  next
    case (Inr events)
    show ?thesis
    proof (cases "re_search (match_int ''Score:'') (extract_final_response_or_default events)")
      case None
      then have "field (evaluate_answer competency j outcome answer) ''score'' = Some (PInt (int 5))"
        by (simp add: Inr evaluate_answer_def parse_evaluation_response_def)
      then show ?thesis by blast
    next
      case (Some ds)
      then show ?thesis
        by (simp add: Inr evaluate_answer_def parse_evaluation_response_def)
    qed
  qed
next
  show "isl outcome \<longrightarrow>
      (\<exists>n. field (evaluate_answer competency j outcome answer) ''score'' = Some (PInt n) \<and> 5 \<le> n \<and> n \<le> 8)"
    using fallback_score_range [of answer]
    by (cases outcome) (simp_all add: evaluate_answer_def generate_fallback_evaluation_def)
next
  show "\<forall>events. outcome = Inr events \<longrightarrow>
      field (evaluate_answer competency j outcome answer) ''score'' =
        Some (PInt (case re_search (match_int ''Score:'') (extract_final_response_or_default events) of
                      None \<Rightarrow> 5 | Some ds \<Rightarrow> int (int_of_digits ds)))"
    by (auto simp: evaluate_answer_def parse_evaluation_response_def split: option.splits)
qed

theorem evaluate_answer_score_witness:
  "field (evaluate_answer ''Leadership'' \<lparr>industry = ''technology'', job_title = ''position''\<rparr>
            (Inr [[''Score: 7/10'']]) ''I led the team.'') ''score'' = Some (PInt 7) \<and>
   (\<exists>n. field (evaluate_answer ''Leadership'' \<lparr>industry = ''technology'', job_title = ''position''\<rparr>
            (Inl (Exn ''RuntimeError'' ''service unavailable'')) ''I led the team.'') ''score'' = Some (PInt n)
        \<and> 5 \<le> n \<and> n \<le> 8)"
  using evaluate_answer_score [of "''Leadership''" "\<lparr>industry = ''technology'', job_title = ''position''\<rparr>"
          "Inr [[''Score: 7/10'']]" "''I led the team.''"]
        evaluate_answer_score [of "''Leadership''" "\<lparr>industry = ''technology'', job_title = ''position''\<rparr>"
          "Inl (Exn ''RuntimeError'' ''service unavailable'')" "''I led the team.''"]
  by (simp add: extract_final_response_or_default_def first_text_def match_int_def is_space_def
      is_digit_def int_of_digits_def digit_val_def)

section \<open>Workflow: robustness of the orchestrator\<close>

lemma process_content_raised:
  "analyze_content_attempt env a m q w = Inl e \<Longrightarrow>
   process_voice_question_response j env mt q a m w =
     (generate_error_result j env w ''content_analysis''
        (PDict [(''status'', PStr ''failed''), (''stage'', PStr ''content_analysis''),
                (''error'', PStr (str_exn e)), (''workflow_id'', PStr w)]), mt)"
  by (simp add: process_voice_question_response_def process_attempt_def run_parallel_analysis_def
      analyze_content_def analyze_delivery_def dict_get_def Let_def split: sum.splits)

lemma process_content_reported:
  "analyze_content_attempt env a m q w = Inr d \<Longrightarrow> dict_get d ''status'' PNone \<noteq> PStr ''success'' \<Longrightarrow>
   process_voice_question_response j env mt q a m w =
     (generate_error_result j env w ''content_analysis'' (PDict d), mt)"
  by (simp add: process_voice_question_response_def process_attempt_def run_parallel_analysis_def
      analyze_content_def analyze_delivery_def Let_def split: sum.splits)

lemma error_result_fields:
  "field (generate_error_result j env w stage x) ''status'' = Some (PStr ''failed'')"
  "field (generate_error_result j env w stage x) ''score'' = Some (PInt 0)"
  by (simp_all add: generate_error_result_def)

lemma fallback_delivery_gate:
  "generate_fallback_delivery_analysis j wid err \<noteq> []"
  "py_negative (dict_get (generate_fallback_delivery_analysis j wid err) ''overall_score'' (PInt 0)) = Inr False"
  by (simp_all add: generate_fallback_delivery_analysis_def dict_get_def py_negative_def)

lemma synthesize_with_fallback_delivery:
  assumes "well_formed_evaluation ev"
  shows "\<exists>syn. synthesize_evaluations j env ev (generate_fallback_delivery_analysis j wid err) w = Inr syn"
proof -
  obtain c where c: "num_of (dict_get ev ''score'' (PInt 0)) = Some c"
    using assms by (auto simp: well_formed_evaluation_def)
  obtain xs where xs: "dict_get ev ''strengths'' (PList []) = PList xs"
    using assms by (cases "dict_get ev ''strengths'' (PList [])") (auto simp: well_formed_evaluation_def)
  obtain ys where ys: "dict_get ev ''improvements'' (PList []) = PList ys"
    using assms by (cases "dict_get ev ''improvements'' (PList [])") (auto simp: well_formed_evaluation_def)
  have fb: "\<exists>syn. generate_fallback_synthesis j env ev (generate_fallback_delivery_analysis j wid err) w = Inr syn"
    by (simp add: generate_fallback_synthesis_def c xs ys generate_fallback_delivery_analysis_def
        dict_get_def [of "_ # _"] try_bind_def Let_def)
  show ?thesis
    using fb by (auto simp: synthesize_evaluations_def split: sum.splits)
qed

lemma is_list_list_or_empty: "is_str_list (list_or_empty m)"
  by (cases m) (simp_all add: list_or_empty_def list_all_iff)

lemma competency_evaluation_well_formed:
  "\<exists>ev. evaluate_answer competency j outcome answer = PDict ev \<and>
        well_formed_evaluation
          (dict_set (dict_set (dict_set (dict_set ev ''transcription_metadata'' md)
             ''status'' (PStr ''success'')) ''workflow_id'' (PStr w)) ''analysis_type'' (PStr ''content''))"
proof (cases outcome)
  case (Inl e)
  then show ?thesis
    by (simp add: evaluate_answer_def generate_fallback_evaluation_def well_formed_evaluation_def dict_get_def)
next
  case (Inr events)
  then show ?thesis
    by (simp add: evaluate_answer_def parse_evaluation_response_def well_formed_evaluation_def dict_get_def
        is_list_list_or_empty split: option.splits)
qed

lemma process_status:
  "field (fst (process_voice_question_response j env metrics question audio_data mime_type workflow_id)) ''status''
     = Some (PStr ''success'') \<or>
   field (fst (process_voice_question_response j env metrics question audio_data mime_type workflow_id)) ''status''
     = Some (PStr ''failed'')"
  by (auto simp: process_voice_question_response_def process_attempt_def try_bind_def Let_def
      generate_error_result_def compile_enhanced_result_def split: sum.splits prod.splits if_splits)

text \<open>
  C1. \<^verbatim>\<open>process_voice_question_response\<close> always returns a result whose status is
  \<^verbatim>\<open>success\<close> or \<^verbatim>\<open>failed\<close>; nothing raised by a branch reaches the caller. When the
  content branch raises, or reports a status other than \<^verbatim>\<open>success\<close>, the result has
  status \<^verbatim>\<open>failed\<close> and score 0, whatever the delivery branch does. When the content
  branch succeeds with an evaluation as the competency agent builds it and the speech
  coach raises, the result has status \<^verbatim>\<open>success\<close>, its \<^verbatim>\<open>content_analysis\<close> is filled
  from the evaluation and its \<^verbatim>\<open>delivery_analysis\<close> from the substituted fallback
  (score 5, the assessment naming the error).
\<close>

theorem orchestrator_robustness:
  "(\<forall>e. analyze_content_attempt env audio_data mime_type question workflow_id = Inl e \<longrightarrow>
      field (fst (process_voice_question_response j env metrics question audio_data mime_type workflow_id))
        ''status'' = Some (PStr ''failed'') \<and>
      field (fst (process_voice_question_response j env metrics question audio_data mime_type workflow_id))
        ''score'' = Some (PInt 0)) \<and>
   (\<forall>d. analyze_content_attempt env audio_data mime_type question workflow_id = Inr d \<and>
        dict_get d ''status'' PNone \<noteq> PStr ''success'' \<longrightarrow>
      field (fst (process_voice_question_response j env metrics question audio_data mime_type workflow_id))
        ''status'' = Some (PStr ''failed'') \<and>
      field (fst (process_voice_question_response j env metrics question audio_data mime_type workflow_id))
        ''score'' = Some (PInt 0)) \<and>
   (\<forall>ev e. analyze_content_attempt env audio_data mime_type question workflow_id = Inr ev \<and>
        dict_get ev ''status'' PNone = PStr ''success'' \<and> well_formed_evaluation ev \<and>
        coach env audio_data mime_type (delivery_context question workflow_id) = Inl e \<longrightarrow>
      field (fst (process_voice_question_response j env metrics question audio_data mime_type workflow_id))
        ''status'' = Some (PStr ''success'') \<and>
      field (fst (process_voice_question_response j env metrics question audio_data mime_type workflow_id))
        ''content_analysis'' = Some (PDict [
          (''score'', dict_get ev ''score'' (PInt 0)),
          (''assessment'', dict_get ev ''overall_assessment'' (PStr [])),
          (''strengths'', dict_get ev ''strengths'' (PList [])),
          (''improvements'', dict_get ev ''improvements'' (PList [])),
          (''star_analysis'', dict_get ev ''star_analysis'' (PDict [])),
          (''transcription_metadata'', dict_get ev ''transcription_metadata'' (PDict []))]) \<and>
      field2 (fst (process_voice_question_response j env metrics question audio_data mime_type workflow_id))
        ''delivery_analysis'' ''score'' = Some (PInt 5) \<and>
      field2 (fst (process_voice_question_response j env metrics question audio_data mime_type workflow_id))
        ''delivery_analysis'' ''assessment'' =
          Some (PStr (if str_exn e \<noteq> [] then ''Delivery analysis unavailable. '' @ str_exn e
                      else ''Delivery analysis temporarily unavailable.''))) \<and>
   (field (fst (process_voice_question_response j env metrics question audio_data mime_type workflow_id))
      ''status'' = Some (PStr ''success'') \<or>
    field (fst (process_voice_question_response j env metrics question audio_data mime_type workflow_id))
      ''status'' = Some (PStr ''failed''))"
proof (intro conjI allI impI)
  show "field (fst (process_voice_question_response j env metrics question audio_data mime_type workflow_id))
      ''status'' = Some (PStr ''success'') \<or>
    field (fst (process_voice_question_response j env metrics question audio_data mime_type workflow_id))
      ''status'' = Some (PStr ''failed'')"
    by (rule process_status)
next
  fix e
  assume "analyze_content_attempt env audio_data mime_type question workflow_id = Inl e"
  then have r: "process_voice_question_response j env metrics question audio_data mime_type workflow_id =
     (generate_error_result j env workflow_id ''content_analysis''
        (PDict [(''status'', PStr ''failed''), (''stage'', PStr ''content_analysis''),
                (''error'', PStr (str_exn e)), (''workflow_id'', PStr workflow_id)]), metrics)"
    by (rule process_content_raised)
  show "field (fst (process_voice_question_response j env metrics question audio_data mime_type workflow_id))
        ''status'' = Some (PStr ''failed'')"
    by (simp add: r error_result_fields)
  show "field (fst (process_voice_question_response j env metrics question audio_data mime_type workflow_id))
        ''score'' = Some (PInt 0)"
    by (simp add: r error_result_fields)
next
  fix d
  assume "analyze_content_attempt env audio_data mime_type question workflow_id = Inr d \<and>
        dict_get d ''status'' PNone \<noteq> PStr ''success''"
  then have r: "process_voice_question_response j env metrics question audio_data mime_type workflow_id =
     (generate_error_result j env workflow_id ''content_analysis'' (PDict d), metrics)"
    by (simp add: process_content_reported)
  show "field (fst (process_voice_question_response j env metrics question audio_data mime_type workflow_id))
        ''status'' = Some (PStr ''failed'')"
    by (simp add: r error_result_fields)
  show "field (fst (process_voice_question_response j env metrics question audio_data mime_type workflow_id))
        ''score'' = Some (PInt 0)"
    by (simp add: r error_result_fields)
next
  fix ev e
  assume a: "analyze_content_attempt env audio_data mime_type question workflow_id = Inr ev \<and>
        dict_get ev ''status'' PNone = PStr ''success'' \<and> well_formed_evaluation ev \<and>
        coach env audio_data mime_type (delivery_context question workflow_id) = Inl e"
  let ?fb = "generate_fallback_delivery_analysis j (PStr workflow_id) (str_exn e)"
  from a have ne: "ev \<noteq> []" by (auto simp: dict_get_def)
  from a have par: "run_parallel_analysis j env audio_data mime_type question workflow_id = (ev, ?fb)"
    by (simp add: run_parallel_analysis_def analyze_content_def analyze_delivery_def
        analyze_delivery_attempt_def try_bind_def)
  from a obtain syn where syn: "synthesize_evaluations j env ev ?fb workflow_id = Inr syn"
    using synthesize_with_fallback_delivery by blast
  have r: "fst (process_voice_question_response j env metrics question audio_data mime_type workflow_id) =
      compile_enhanced_result j workflow_id ev ?fb syn question"
    using a ne
    by (simp add: process_voice_question_response_def process_attempt_def par fallback_delivery_gate
        syn try_bind_def)
  show "field (fst (process_voice_question_response j env metrics question audio_data mime_type workflow_id))
        ''status'' = Some (PStr ''success'')"
    by (simp add: r compile_enhanced_result_def)
  show "field (fst (process_voice_question_response j env metrics question audio_data mime_type workflow_id))
        ''content_analysis'' = Some (PDict [
          (''score'', dict_get ev ''score'' (PInt 0)),
          (''assessment'', dict_get ev ''overall_assessment'' (PStr [])),
          (''strengths'', dict_get ev ''strengths'' (PList [])),
          (''improvements'', dict_get ev ''improvements'' (PList [])),
          (''star_analysis'', dict_get ev ''star_analysis'' (PDict [])),
          (''transcription_metadata'', dict_get ev ''transcription_metadata'' (PDict []))])"
    by (simp add: r compile_enhanced_result_def)
  show "field2 (fst (process_voice_question_response j env metrics question audio_data mime_type workflow_id))
        ''delivery_analysis'' ''score'' = Some (PInt 5)"
    by (simp add: r compile_enhanced_result_def field2_def generate_fallback_delivery_analysis_def dict_get_def)
  show "field2 (fst (process_voice_question_response j env metrics question audio_data mime_type workflow_id))
        ''delivery_analysis'' ''assessment'' =
          Some (PStr (if str_exn e \<noteq> [] then ''Delivery analysis unavailable. '' @ str_exn e
                      else ''Delivery analysis temporarily unavailable.''))"
    by (simp add: r compile_enhanced_result_def field2_def generate_fallback_delivery_analysis_def dict_get_def)
qed

theorem orchestrator_robustness_witness:
  "field (fst (process_voice_question_response \<lparr>industry = ''technology'', job_title = ''engineer''\<rparr>
      \<lparr> transcribe_audio = (\<lambda>a m. Inr (PDict [(''status'', PStr ''success''),
                                                (''transcribed_text'', PStr ''I led the team.'')])),
        evaluate = (\<lambda>q t. Inr (PDict [(''score'', PInt 7), (''strengths'', PList [PStr ''clear''])])),
        coach = (\<lambda>a m c. Inl (Exn ''RuntimeError'' ''coach down'')),
        synthesis_run = Inl (Exn ''RuntimeError'' ''model down''),
        py_str = (\<lambda>v. ''7'') \<rparr>
      \<lparr>successful_workflows = 0, content_and_delivery_analyzed = 0, failed_workflows = 0\<rparr>
      [(''competency'', PStr ''Leadership'')] (replicate 1200 0) ''audio/wav'' ''w1'')) ''status''
     = Some (PStr ''success'') \<and>
   field (fst (process_voice_question_response \<lparr>industry = ''technology'', job_title = ''engineer''\<rparr>
      \<lparr> transcribe_audio = (\<lambda>a m. Inl (Exn ''RuntimeError'' ''transcriber down'')),
        evaluate = (\<lambda>q t. Inr (PDict [(''score'', PInt 7), (''strengths'', PList [PStr ''clear''])])),
        coach = (\<lambda>a m c. Inl (Exn ''RuntimeError'' ''coach down'')),
        synthesis_run = Inl (Exn ''RuntimeError'' ''model down''),
        py_str = (\<lambda>v. ''7'') \<rparr>
      \<lparr>successful_workflows = 0, content_and_delivery_analyzed = 0, failed_workflows = 0\<rparr>
      [(''competency'', PStr ''Leadership'')] (replicate 1200 0) ''audio/wav'' ''w1'')) ''score''
     = Some (PInt 0)"
proof -
  let ?j = "\<lparr>industry = ''technology'', job_title = ''engineer''\<rparr>"
  let ?env = "\<lparr> transcribe_audio = (\<lambda>a m. Inr (PDict [(''status'', PStr ''success''),
                                                (''transcribed_text'', PStr ''I led the team.'')])),
        evaluate = (\<lambda>q t. Inr (PDict [(''score'', PInt 7), (''strengths'', PList [PStr ''clear''])])),
        coach = (\<lambda>a m c. Inl (Exn ''RuntimeError'' ''coach down'')),
        synthesis_run = Inl (Exn ''RuntimeError'' ''model down''),
        py_str = (\<lambda>v. ''7'') \<rparr>"
  let ?env' = "\<lparr> transcribe_audio = (\<lambda>a m. Inl (Exn ''RuntimeError'' ''transcriber down'')),
        evaluate = (\<lambda>q t. Inr (PDict [(''score'', PInt 7), (''strengths'', PList [PStr ''clear''])])),
        coach = (\<lambda>a m c. Inl (Exn ''RuntimeError'' ''coach down'')),
        synthesis_run = Inl (Exn ''RuntimeError'' ''model down''),
        py_str = (\<lambda>v. ''7'') \<rparr>"
  let ?mt = "\<lparr>successful_workflows = 0, content_and_delivery_analyzed = 0, failed_workflows = 0\<rparr>"
  let ?q = "[(''competency'', PStr ''Leadership'')]"
  have "\<exists>ev. analyze_content_attempt ?env (replicate 1200 0) ''audio/wav'' ?q ''w1'' = Inr ev \<and>
          dict_get ev ''status'' PNone = PStr ''success'' \<and> well_formed_evaluation ev"
    by (simp add: analyze_content_attempt_def try_bind_def dict_get_def well_formed_evaluation_def)
  then obtain ev where ev: "analyze_content_attempt ?env (replicate 1200 0) ''audio/wav'' ?q ''w1'' = Inr ev \<and>
          dict_get ev ''status'' PNone = PStr ''success'' \<and> well_formed_evaluation ev \<and>
          coach ?env (replicate 1200 0) ''audio/wav'' (delivery_context ?q ''w1'') = Inl (Exn ''RuntimeError'' ''coach down'')"
    by auto
  have raised: "analyze_content_attempt ?env' (replicate 1200 0) ''audio/wav'' ?q ''w1''
      = Inl (Exn ''RuntimeError'' ''transcriber down'')"
    by (simp add: analyze_content_attempt_def try_bind_def)
  from orchestrator_robustness [of ?env "replicate 1200 0" "''audio/wav''" ?q "''w1''" ?j ?mt] ev
  have ok: "field (fst (process_voice_question_response ?j ?env ?mt ?q (replicate 1200 0) ''audio/wav'' ''w1''))
      ''status'' = Some (PStr ''success'')"
    by blast
  from orchestrator_robustness [of ?env' "replicate 1200 0" "''audio/wav''" ?q "''w1''" ?j ?mt] raised
  have failed: "field (fst (process_voice_question_response ?j ?env' ?mt ?q (replicate 1200 0) ''audio/wav'' ''w1''))
      ''score'' = Some (PInt 0)"
    by blast
  from ok failed show ?thesis by simp
qed

section \<open>Workflow: the fallback synthesis\<close>

lemma dict_get_dict_set_other:
  "k \<noteq> k' \<Longrightarrow> dict_get (dict_set d k' v) k dflt = dict_get d k dflt"
  by (induction d) (auto simp: dict_get_def)





section \<open>Workflow: the substituted delivery analysis\<close>

lemma fallback_delivery_entries:
  "map_of (generate_fallback_delivery_analysis j wid err) ''overall_score'' = Some (PInt 5)"
  "map_of (generate_fallback_delivery_analysis j wid err) ''detailed_scores'' = Some (PDict [])"
  "dict_get (generate_fallback_delivery_analysis j wid err) ''overall_score'' dflt = PInt 5"
  "dict_get (generate_fallback_delivery_analysis j wid err) ''detailed_scores'' dflt = PDict []"
  by (simp_all add: generate_fallback_delivery_analysis_def dict_get_def)

lemma process_success_form:
  assumes "field (fst (process_voice_question_response j env metrics question audio_data mime_type workflow_id))
             ''status'' = Some (PStr ''success'')"
  shows "\<exists>syn failed.
           (if snd (run_parallel_analysis j env audio_data mime_type question workflow_id) = [] then Inr True
            else py_negative (dict_get (snd (run_parallel_analysis j env audio_data mime_type question workflow_id))
                   ''overall_score'' (PInt 0))) = Inr failed \<and>
           fst (process_voice_question_response j env metrics question audio_data mime_type workflow_id) =
             compile_enhanced_result j workflow_id
               (fst (run_parallel_analysis j env audio_data mime_type question workflow_id))
               (if failed then generate_fallback_delivery_analysis j PNone []
                else snd (run_parallel_analysis j env audio_data mime_type question workflow_id))
               syn question"
proof -
  obtain c d0 where par: "run_parallel_analysis j env audio_data mime_type question workflow_id = (c, d0)"
    by (cases "run_parallel_analysis j env audio_data mime_type question workflow_id")
  let ?gate = "if d0 = [] then Inr True else py_negative (dict_get d0 ''overall_score'' (PInt 0))"
  let ?res = "fst (process_voice_question_response j env metrics question audio_data mime_type workflow_id)"
  have not_failed: "field ?res ''status'' \<noteq> Some (PStr ''failed'')"
    using assms by simp
  show ?thesis
  proof (cases "c = [] \<or> dict_get c ''status'' PNone \<noteq> PStr ''success''")
    case True
    then have "?res = generate_error_result j env workflow_id ''content_analysis'' (PDict c)"
      by (simp add: process_voice_question_response_def process_attempt_def par)
    with not_failed show ?thesis by (simp add: error_result_fields)
  next
    case False
    show ?thesis
    proof (cases ?gate)
      case (Inl e)
      with False have "?res = generate_error_result j env workflow_id ''workflow_error'' (PStr (str_exn e))"
        by (simp add: process_voice_question_response_def process_attempt_def par try_bind_def)
      with not_failed show ?thesis by (simp add: error_result_fields)
    next
      case (Inr failed)
      let ?d = "if failed then generate_fallback_delivery_analysis j PNone [] else d0"
      show ?thesis
      proof (cases "synthesize_evaluations j env c ?d workflow_id")
        case (Inl e)
        with False Inr have "?res = generate_error_result j env workflow_id ''workflow_error'' (PStr (str_exn e))"
          by (simp add: process_voice_question_response_def process_attempt_def par try_bind_def Let_def)
        with not_failed show ?thesis by (simp add: error_result_fields)
      next
        case syn: (Inr syn)
        with False Inr have r: "?res = compile_enhanced_result j workflow_id c ?d syn question"
          by (simp add: process_voice_question_response_def process_attempt_def par try_bind_def Let_def)
        have "?gate = Inr failed \<and> ?res = compile_enhanced_result j workflow_id c ?d syn question"
          using Inr r by blast
        then show ?thesis
          unfolding par fst_conv snd_conv by blast
      qed
    qed
  qed
qed

lemma parallel_delivery_raised:
  "coach env audio_data mime_type (delivery_context question workflow_id) = Inl e \<Longrightarrow>
   snd (run_parallel_analysis j env audio_data mime_type question workflow_id) =
     generate_fallback_delivery_analysis j (PStr workflow_id) (str_exn e)"
  by (simp add: run_parallel_analysis_def analyze_delivery_def analyze_delivery_attempt_def try_bind_def)

lemma parallel_delivery_returned:
  "coach env audio_data mime_type (delivery_context question workflow_id) = Inr (PDict d) \<Longrightarrow>
   snd (run_parallel_analysis j env audio_data mime_type question workflow_id) =
     dict_set (dict_set d ''analysis_type'' (PStr ''delivery'')) ''workflow_id'' (PStr workflow_id)"
  by (simp add: run_parallel_analysis_def analyze_delivery_def analyze_delivery_attempt_def try_bind_def)

lemma dict_set_not_empty: "dict_set d k v \<noteq> []"
  by (cases d) (auto split: if_splits)

text \<open>
  C10. The fallback delivery analysis of the orchestrator has overall score 5 and an
  empty \<^verbatim>\<open>detailed_scores\<close>. Whenever the coach raises, or reports a negative overall
  score, and the workflow succeeds, the compiled \<^verbatim>\<open>delivery_analysis\<close> has score 5 and
  no per-axis scores. The fallback analysis of the speech coach itself carries all six
  axes, each with score 5.
\<close>

theorem orchestrator_fallback_has_no_axis_scores:
  "map_of (generate_fallback_delivery_analysis j wid err) ''overall_score'' = Some (PInt 5) \<and>
   map_of (generate_fallback_delivery_analysis j wid err) ''detailed_scores'' = Some (PDict []) \<and>
   (((\<exists>e. coach env audio_data mime_type (delivery_context question workflow_id) = Inl e) \<or>
     (\<exists>d s. coach env audio_data mime_type (delivery_context question workflow_id) = Inr (PDict d) \<and>
            num_of (dict_get d ''overall_score'' (PInt 0)) = Some s \<and> s < 0)) \<and>
    field (fst (process_voice_question_response j env metrics question audio_data mime_type workflow_id))
      ''status'' = Some (PStr ''success'') \<longrightarrow>
    field2 (fst (process_voice_question_response j env metrics question audio_data mime_type workflow_id))
      ''delivery_analysis'' ''score'' = Some (PInt 5) \<and>
    field2 (fst (process_voice_question_response j env metrics question audio_data mime_type workflow_id))
      ''delivery_analysis'' ''detailed_scores'' = Some (PDict [])) \<and>
   field (generate_fallback_analysis j audio_data error_msg context) ''detailed_scores'' =
     Some (PDict [
       (''pace_rhythm'', axis_entry 5 ''Unable to analyze pace due to processing error''),
       (''clarity_articulation'', axis_entry 5 ''Unable to analyze clarity due to processing error''),
       (''confidence_authority'', axis_entry 5 ''Unable to analyze confidence due to processing error''),
       (''professional_tone'', axis_entry 5 ''Unable to analyze tone due to processing error''),
       (''energy_engagement'', axis_entry 5 ''Unable to analyze energy due to processing error''),
       (''speech_patterns'', axis_entry 5 ''Unable to analyze patterns due to processing error'')]) \<and>
   field (axis_entry 5 feedback) ''score'' = Some (PInt 5)"
proof (intro conjI impI)
  assume a: "((\<exists>e. coach env audio_data mime_type (delivery_context question workflow_id) = Inl e) \<or>
     (\<exists>d s. coach env audio_data mime_type (delivery_context question workflow_id) = Inr (PDict d) \<and>
            num_of (dict_get d ''overall_score'' (PInt 0)) = Some s \<and> s < 0)) \<and>
    field (fst (process_voice_question_response j env metrics question audio_data mime_type workflow_id))
      ''status'' = Some (PStr ''success'')"
  let ?par = "run_parallel_analysis j env audio_data mime_type question workflow_id"
  let ?res = "fst (process_voice_question_response j env metrics question audio_data mime_type workflow_id)"
  from a process_success_form [of j env metrics question audio_data mime_type workflow_id]
  obtain syn failed where
    gate: "(if snd ?par = [] then Inr True
            else py_negative (dict_get (snd ?par) ''overall_score'' (PInt 0))) = Inr failed"
    and res: "?res = compile_enhanced_result j workflow_id (fst ?par)
               (if failed then generate_fallback_delivery_analysis j PNone [] else snd ?par) syn question"
    by blast
  have "\<exists>wid err. (if failed then generate_fallback_delivery_analysis j PNone [] else snd ?par)
          = generate_fallback_delivery_analysis j wid err"
  proof (cases failed)
    case True
    then show ?thesis by auto
  next
    case False
    from a have "(\<exists>e. coach env audio_data mime_type (delivery_context question workflow_id) = Inl e) \<or>
     (\<exists>d s. coach env audio_data mime_type (delivery_context question workflow_id) = Inr (PDict d) \<and>
            num_of (dict_get d ''overall_score'' (PInt 0)) = Some s \<and> s < 0)" by simp
    then show ?thesis
    proof
      assume "\<exists>e. coach env audio_data mime_type (delivery_context question workflow_id) = Inl e"
      then show ?thesis using False parallel_delivery_raised by fastforce
    next
      assume "\<exists>d s. coach env audio_data mime_type (delivery_context question workflow_id) = Inr (PDict d) \<and>
            num_of (dict_get d ''overall_score'' (PInt 0)) = Some s \<and> s < 0"
      then obtain d s where d: "coach env audio_data mime_type (delivery_context question workflow_id) = Inr (PDict d)"
        and s: "num_of (dict_get d ''overall_score'' (PInt 0)) = Some s" "s < 0" by blast
      have p: "snd ?par = dict_set (dict_set d ''analysis_type'' (PStr ''delivery'')) ''workflow_id'' (PStr workflow_id)"
        using d by (rule parallel_delivery_returned)
      have "py_negative (dict_get (snd ?par) ''overall_score'' (PInt 0)) = Inr True"
        using s by (simp add: p dict_get_dict_set_other py_negative_def)
      with gate have "failed" by (simp add: p dict_set_not_empty)
      with False show ?thesis by simp
    qed
  qed
  then obtain wid' err' where fb: "(if failed then generate_fallback_delivery_analysis j PNone [] else snd ?par)
          = generate_fallback_delivery_analysis j wid' err'" by blast
  show "field2 ?res ''delivery_analysis'' ''score'' = Some (PInt 5)"
    by (simp only: res fb) (simp add: compile_enhanced_result_def field2_def fallback_delivery_entries)
  show "field2 ?res ''delivery_analysis'' ''detailed_scores'' = Some (PDict [])"
    by (simp only: res fb) (simp add: compile_enhanced_result_def field2_def fallback_delivery_entries)
qed (simp_all add: fallback_delivery_entries generate_fallback_analysis_def axis_entry_def)

theorem orchestrator_fallback_has_no_axis_scores_witness:
  "field2 (fst (process_voice_question_response \<lparr>industry = ''sales'', job_title = ''manager''\<rparr>
      \<lparr> transcribe_audio = (\<lambda>a m. Inr (PDict [(''status'', PStr ''success''),
                                                (''transcribed_text'', PStr ''We won the deal.'')])),
        evaluate = (\<lambda>q t. Inr (PDict [(''score'', PInt 6), (''strengths'', PList [PStr ''concise''])])),
        coach = (\<lambda>a m c. Inr (PDict [(''overall_score'', PInt (- 1))])),
        synthesis_run = Inl (Exn ''RuntimeError'' ''model down''),
        py_str = (\<lambda>v. ''6'') \<rparr>
      \<lparr>successful_workflows = 0, content_and_delivery_analyzed = 0, failed_workflows = 0\<rparr>
      [(''competency'', PStr ''Teamwork'')] (replicate 1500 0) ''audio/webm'' ''w2''))
      ''delivery_analysis'' ''detailed_scores'' = Some (PDict [])"
proof -
  let ?j = "\<lparr>industry = ''sales'', job_title = ''manager''\<rparr>"
  let ?env = "\<lparr> transcribe_audio = (\<lambda>a m. Inr (PDict [(''status'', PStr ''success''),
                                                (''transcribed_text'', PStr ''We won the deal.'')])),
        evaluate = (\<lambda>q t. Inr (PDict [(''score'', PInt 6), (''strengths'', PList [PStr ''concise''])])),
        coach = (\<lambda>a m c. Inr (PDict [(''overall_score'', PInt (- 1))])),
        synthesis_run = Inl (Exn ''RuntimeError'' ''model down''),
        py_str = (\<lambda>v. ''6'') \<rparr>"
  let ?mt = "\<lparr>successful_workflows = 0, content_and_delivery_analyzed = 0, failed_workflows = 0\<rparr>"
  let ?q = "[(''competency'', PStr ''Teamwork'')]"
  have st: "field (fst (process_voice_question_response ?j ?env ?mt ?q (replicate 1500 0) ''audio/webm'' ''w2''))
      ''status'' = Some (PStr ''success'')"
    by (simp add: process_voice_question_response_def process_attempt_def run_parallel_analysis_def
        analyze_content_def analyze_content_attempt_def analyze_delivery_def analyze_delivery_attempt_def
        try_bind_def dict_get_def py_negative_def synthesize_evaluations_def synthesis_prompt_ok_def
        prompt_part_ok_def generate_fallback_synthesis_def generate_fallback_delivery_analysis_def
        compile_enhanced_result_def Let_def)
  have neg: "\<exists>d s. coach ?env (replicate 1500 0) ''audio/webm'' (delivery_context ?q ''w2'') = Inr (PDict d) \<and>
      num_of (dict_get d ''overall_score'' (PInt 0)) = Some s \<and> s < 0"
    by (simp add: dict_get_def)
  from orchestrator_fallback_has_no_axis_scores [of ?j _ _ ?env "replicate 1500 0" "''audio/webm''" ?q "''w2''" ?mt]
       st neg
  show ?thesis by blast
qed

section \<open>The overall score as a weighted combination\<close>









section \<open>Job analyzer: the selected competencies\<close>

lemma dict_set_fresh: "k \<notin> fst ` set d \<Longrightarrow> dict_set d k v = d @ [(k, v)]"
  by (induction d) auto

lemma fold_scores:
  assumes "distinct (map fst tbl)" and "fst ` set acc \<inter> fst ` set tbl = {}"
  shows "fold (\<lambda>(competency, keywords) counter.
             let score = f keywords
             in if score > 0 then dict_set counter competency score else counter) tbl acc
         = acc @ map (\<lambda>(c, kws). (c, f kws)) (filter (\<lambda>(c, kws). 0 < f kws) tbl)"
  using assms
proof (induction tbl arbitrary: acc)
  case Nil
  then show ?case by simp
next
  case (Cons x tbl)
  obtain c kws where x: "x = (c, kws)" by (cases x)
  from Cons.prems have fresh: "c \<notin> fst ` set acc" by (auto simp: x)
  show ?case
  proof (cases "0 < f kws")
    case True
    have "fst ` set (acc @ [(c, f kws)]) \<inter> fst ` set tbl = {}"
      using Cons.prems by (auto simp: x)
    with Cons.IH [of "acc @ [(c, f kws)]"] Cons.prems True fresh show ?thesis
      by (simp add: x dict_set_fresh Let_def)
  next
    case False
    have "fst ` set acc \<inter> fst ` set tbl = {}" using Cons.prems by auto
    with Cons.IH [of acc] Cons.prems False show ?thesis
      by (simp add: x Let_def)
  qed
qed


lemma competency_keywords_distinct: "distinct (map fst competency_keywords)"
  by (simp add: competency_keywords_def)

lemma fold_essential:
  "fold (\<lambda>essential_comp selected.
           if essential_comp \<notin> set selected then selected @ [essential_comp] else selected)
     essential sel = sel @ filter (\<lambda>e. e \<notin> set sel) essential"
  by (simp add: essential_def)

lemma length_le_five:
  assumes "distinct sel"
    and "set sel \<subseteq> {''Project Management'', ''Attention to Detail'', ''Written Communication'',
                         ''Leadership'', ''Teamwork''}"
  shows "length sel \<le> 5"
proof -
  have "card (set sel) \<le> card {''Project Management'', ''Attention to Detail'', ''Written Communication'',
                         ''Leadership'', ''Teamwork''}"
    using assms(2) by (intro card_mono) auto
  also have "\<dots> = 5" by simp
  finally show ?thesis using assms(1) by (simp add: distinct_card)
qed

lemma names_split:
  "fst ` set competency_keywords = set essential \<union>
     {''Project Management'', ''Attention to Detail'', ''Written Communication'', ''Leadership'', ''Teamwork''}"
  unfolding competency_keywords_def essential_def by (simp add: insert_commute)

lemma ranked_facts:
  fixes jd :: string and ai :: ai_analysis
  defines "counter \<equiv> competency_scores (py_lower jd)
             (py_lower (py_join '' '' (responsibilities ai @ requirements ai @ skills ai)))"
  shows "\<forall>(c, s) \<in> set counter. c \<in> fst ` set competency_keywords \<and> s = score_of jd ai c \<and> 0 < s"
    and "distinct (map fst counter)"
    and "\<forall>c. 0 < score_of jd ai c \<longrightarrow> c \<in> fst ` set counter"
proof -
  let ?f = "keyword_score (py_lower jd)
             (py_lower (py_join '' '' (responsibilities ai @ requirements ai @ skills ai)))"
  have eq: "counter = map (\<lambda>(c, kws). (c, ?f kws)) (filter (\<lambda>(c, kws). 0 < ?f kws) competency_keywords)"
    unfolding counter_def competency_scores_def
    using fold_scores [of competency_keywords "[]" ?f] competency_keywords_distinct by simp
  have sc: "\<And>c kws. (c, kws) \<in> set competency_keywords \<Longrightarrow> score_of jd ai c = ?f kws"
    using competency_keywords_distinct by (simp add: score_of_def)
  show "\<forall>(c, s) \<in> set counter. c \<in> fst ` set competency_keywords \<and> s = score_of jd ai c \<and> 0 < s"
    using sc by (force simp: eq)
  have "map fst counter = map fst (filter (\<lambda>(c, kws). 0 < ?f kws) competency_keywords)"
    by (simp add: eq split_def comp_def)
  then show "distinct (map fst counter)"
    using competency_keywords_distinct by (simp add: distinct_map_filter)
  show "\<forall>c. 0 < score_of jd ai c \<longrightarrow> c \<in> fst ` set counter"
  proof (intro allI impI)
    fix c assume pos: "0 < score_of jd ai c"
    then obtain kws where k: "map_of competency_keywords c = Some kws"
      by (cases "map_of competency_keywords c") (simp_all add: score_of_def)
    then have m: "(c, kws) \<in> set competency_keywords" by (rule map_of_SomeD)
    with pos sc have "0 < ?f kws" by simp
    with m have "(c, ?f kws) \<in> set counter" by (force simp: eq)
    then show "c \<in> fst ` set counter" by force
  qed
qed


text \<open>
  C9. The list returned by \<^verbatim>\<open>_extract_competencies\<close> is a list \<open>sel\<close> of at most 6
  distinct competencies followed by the essential competencies (Problem Solving, Technical
  Expertise, Analytical Thinking) that are not in it. \<open>sel\<close> holds the best competencies
  by keyword score over the description and the AI fields: each has a positive score, no
  competency outside it scores higher than one inside it, it is in descending order of
  score, and it misses a competency with a positive score only when it is full. The whole
  list never has more than 8 entries, so the cut to 8 removes nothing, and Technical
  Expertise is always in it.
\<close>

theorem extract_competencies_selection:
  "\<exists>sel. extract_competencies jd ai = sel @ filter (\<lambda>e. e \<notin> set sel) essential \<and>
         distinct sel \<and> length sel \<le> 6 \<and>
         (\<forall>c \<in> set sel. 0 < score_of jd ai c) \<and>
         (\<forall>c \<in> set sel. \<forall>c'. c' \<notin> set sel \<longrightarrow> score_of jd ai c' \<le> score_of jd ai c) \<and>
         (length sel < 6 \<longrightarrow> (\<forall>c. 0 < score_of jd ai c \<longrightarrow> c \<in> set sel)) \<and>
         sorted (map (\<lambda>c. - int (score_of jd ai c)) sel) \<and>
         length (extract_competencies jd ai) \<le> 8 \<and>
         ''Technical Expertise'' \<in> set (extract_competencies jd ai)"
proof -
  define counter where "counter = competency_scores (py_lower jd)
             (py_lower (py_join '' '' (responsibilities ai @ requirements ai @ skills ai)))"
  define key where "key = (\<lambda>(c :: string, count :: nat). - int count)"
  define ranked where "ranked = sort_key key counter"
  define sel where "sel = map fst (take 6 ranked)"
  note rf = ranked_facts [of jd ai, folded counter_def]
  have set_ranked: "set ranked = set counter" by (simp add: ranked_def)
  have in_ranked: "\<And>c s. (c, s) \<in> set ranked \<Longrightarrow> s = score_of jd ai c \<and> 0 < s"
    using rf(1) set_ranked by auto
  have key_eq: "\<And>p. p \<in> set ranked \<Longrightarrow> key p = - int (score_of jd ai (fst p))"
    using in_ranked by (auto simp: key_def)
  have take_sub: "set (take 6 ranked) \<subseteq> set ranked" by (rule set_take_subset)
  have res: "extract_competencies jd ai = take 8 (sel @ filter (\<lambda>e. e \<notin> set sel) essential)"
    by (simp add: extract_competencies_def Let_def fold_essential sel_def ranked_def key_def
        counter_def most_common_def)
  have dist_ranked: "distinct (map fst ranked)"
  proof -
    from rf(2) have "distinct counter" "inj_on fst (set counter)" by (simp_all add: distinct_map)
    then show ?thesis by (simp add: distinct_map ranked_def)
  qed
  have dist: "distinct sel"
    using dist_ranked by (simp add: sel_def take_map [symmetric] distinct_take)
  have len: "length sel \<le> 6" by (simp add: sel_def)
  have sel_mem: "\<And>c. c \<in> set sel \<Longrightarrow> (c, score_of jd ai c) \<in> set (take 6 ranked)"
  proof -
    fix c assume "c \<in> set sel"
    then obtain s where m: "(c, s) \<in> set (take 6 ranked)" by (auto simp: sel_def)
    with take_sub in_ranked have "s = score_of jd ai c" by blast
    with m show "(c, score_of jd ai c) \<in> set (take 6 ranked)" by simp
  qed
  have pos: "\<forall>c \<in> set sel. 0 < score_of jd ai c"
    using sel_mem take_sub in_ranked by blast
  have srt: "sorted (map key ranked)" by (simp add: ranked_def)
  have split: "sorted (map key (take 6 ranked) @ map key (drop 6 ranked))"
    using srt by (simp add: map_append [symmetric] del: map_append)
  have best: "\<forall>c \<in> set sel. \<forall>c'. c' \<notin> set sel \<longrightarrow> score_of jd ai c' \<le> score_of jd ai c"
  proof (intro ballI allI impI)
    fix c c' assume c: "c \<in> set sel" and c': "c' \<notin> set sel"
    show "score_of jd ai c' \<le> score_of jd ai c"
    proof (cases "0 < score_of jd ai c'")
      case False
      then show ?thesis by simp
    next
      case True
      with rf(3) obtain s' where "(c', s') \<in> set counter" by force
      with set_ranked in_ranked have m: "(c', score_of jd ai c') \<in> set ranked" by auto
      have "(c', score_of jd ai c') \<notin> set (take 6 ranked)"
        using c' by (force simp: sel_def)
      with m have d: "(c', score_of jd ai c') \<in> set (drop 6 ranked)"
        by (metis Un_iff append_take_drop_id set_append)
      from sel_mem [OF c] have t: "(c, score_of jd ai c) \<in> set (take 6 ranked)" .
      from split t d have "key (c, score_of jd ai c) \<le> key (c', score_of jd ai c')"
        by (auto simp: sorted_append)
      then show ?thesis by (simp add: key_def)
    qed
  qed
  have full: "length sel < 6 \<longrightarrow> (\<forall>c. 0 < score_of jd ai c \<longrightarrow> c \<in> set sel)"
  proof (intro impI allI)
    fix c assume l: "length sel < 6" and p: "0 < score_of jd ai c"
    from l have "take 6 ranked = ranked" by (simp add: sel_def)
    then have "set sel = fst ` set counter" by (simp add: sel_def set_ranked)
    with rf(3) p show "c \<in> set sel" by blast
  qed
  have sorted_sel: "sorted (map (\<lambda>c. - int (score_of jd ai c)) sel)"
  proof -
    have "map (\<lambda>c. - int (score_of jd ai c)) sel = map key (take 6 ranked)"
      unfolding sel_def map_map comp_def
      by (rule map_cong [OF refl]) (use key_eq take_sub in auto)
    also have "\<dots> = take 6 (map key ranked)" by (simp add: take_map)
    finally show ?thesis using srt by (simp add: sorted_wrt_take)
  qed
  have len8: "length (sel @ filter (\<lambda>e. e \<notin> set sel) essential) \<le> 8"
  proof (cases "set essential \<inter> set sel = {}")
    case True
    have s1: "fst ` set (take 6 ranked) \<subseteq> fst ` set counter"
      using take_sub set_ranked by blast
    have s2: "fst ` set counter \<subseteq> fst ` set competency_keywords"
      using rf(1) by fastforce
    have sub: "set sel \<subseteq> fst ` set competency_keywords"
      using s1 s2 by (simp add: sel_def)
    define others where "others = {''Project Management'', ''Attention to Detail'',
        ''Written Communication'', ''Leadership'', ''Teamwork''}"
    have ns: "fst ` set competency_keywords = set essential \<union> others"
      unfolding others_def by (rule names_split)
    have "set sel \<subseteq> others"
      using sub ns True by blast
    with dist have "length sel \<le> 5"
      unfolding others_def by (rule length_le_five)
    moreover have "length (filter (\<lambda>e. e \<notin> set sel) essential) \<le> 3"
      using length_filter_le [of "\<lambda>e. e \<notin> set sel" essential] by (simp add: essential_def)
    ultimately show ?thesis by simp
  next
    case False
    then obtain e where e: "e \<in> set essential" "e \<in> set sel" by blast
    have "length (filter (\<lambda>e. e \<notin> set sel) essential) < length essential"
      by (rule length_filter_less [of e]) (use e in auto)
    then have "length (filter (\<lambda>e. e \<notin> set sel) essential) \<le> 2"
      by (simp add: essential_def)
    with len show ?thesis by simp
  qed
  then have res': "extract_competencies jd ai = sel @ filter (\<lambda>e. e \<notin> set sel) essential"
    by (simp add: res)
  have te: "''Technical Expertise'' \<in> set (extract_competencies jd ai)"
    by (auto simp: res' essential_def)
  from res' dist len pos best full sorted_sel len8 te show ?thesis
    by (intro exI [of _ sel]) simp
qed


theorem extract_competencies_selection_witness:
  "extract_competencies ''Lead the team.'' \<lparr>responsibilities = [], requirements = [], skills = []\<rparr>
     = [''Leadership'', ''Teamwork'', ''Problem Solving'', ''Technical Expertise'', ''Analytical Thinking''] \<and>
   ''Technical Expertise'' \<in> set (extract_competencies ''Lead the team.''
       \<lparr>responsibilities = [], requirements = [], skills = []\<rparr>)"
proof -
  have "extract_competencies ''Lead the team.'' \<lparr>responsibilities = [], requirements = [], skills = []\<rparr>
     = [''Leadership'', ''Teamwork'', ''Problem Solving'', ''Technical Expertise'', ''Analytical Thinking'']"
    by code_simp
  moreover from extract_competencies_selection
      [of "''Lead the team.''" "\<lparr>responsibilities = [], requirements = [], skills = []\<rparr>"]
  have "''Technical Expertise'' \<in> set (extract_competencies ''Lead the team.''
       \<lparr>responsibilities = [], requirements = [], skills = []\<rparr>)"
    by blast
  ultimately show ?thesis by blast
qed

end
